theory Spec2Isabelle
  imports Main "HOL-Library.Multiset"
begin

section \<open>Python values and the operations the handlers apply to them\<close>

text \<open>
  A parsed JSON payload. Python's \<open>None\<close> is \<open>JNull\<close>; a dict is an association
  list read with \<open>map_of\<close>. Numbers are Python ints (a float meets the same
  operations here: truthiness, \<open>==\<close>, and the attribute and subscript errors).
\<close>

datatype json =
    JNull
  | JBool bool
  | JNum int
  | JStr string
  | JArr "json list"
  | JObj "(string \<times> json) list"

text \<open>
  The exceptions that can travel through a handler. \<open>HTTPException c d\<close> is what
  Flask's \<open>abort(c, d)\<close> raises; \<open>ValidationError\<close> is mongoengine's, raised by
  \<open>save\<close> on a document that does not fit its class; \<open>StorageError\<close> is any
  exception of the persistence layer.
\<close>

datatype exn =
    HTTPException nat string
  | KeyError string
  | AttributeError
  | TypeError
  | ValueError
  | ValidationError
  | StorageError

text \<open>
  What the client receives: \<open>jsonify({"msg": m}), c\<close>, the page of an \<open>abort\<close>,
  or Flask's answer to an exception no handler caught (HTTP 500).
\<close>

datatype response =
    Jsonify string nat
  | Aborted nat string
  | Unhandled exn

fun status_code :: "response \<Rightarrow> nat" where
  "status_code (Jsonify m c) = c"
| "status_code (Aborted c d) = c"
| "status_code (Unhandled e) = 500"

fun flask_error :: "exn \<Rightarrow> response" where
  "flask_error (HTTPException c d) = Aborted c d"
| "flask_error e = Unhandled e"

definition ebind :: "exn + 'a \<Rightarrow> ('a \<Rightarrow> exn + 'b) \<Rightarrow> exn + 'b" where
  "ebind m f = (case m of Inl e \<Rightarrow> Inl e | Inr x \<Rightarrow> f x)"

text \<open>Truthiness, as \<open>if x\<close>, \<open>x and y\<close> and \<open>not x\<close> test it.\<close>

fun truthy :: "json \<Rightarrow> bool" where
  "truthy JNull = False"
| "truthy (JBool b) = b"
| "truthy (JNum n) = (n \<noteq> 0)"
| "truthy (JStr s) = (s \<noteq> [])"
| "truthy (JArr xs) = (xs \<noteq> [])"
| "truthy (JObj kvs) = (kvs \<noteq> [])"

text \<open>\<open>d.get(k, default)\<close>: only a dict has the method.\<close>

fun dict_get :: "json \<Rightarrow> string \<Rightarrow> json \<Rightarrow> exn + json" where
  "dict_get (JObj kvs) k dflt = Inr (case map_of kvs k of None \<Rightarrow> dflt | Some v \<Rightarrow> v)"
| "dict_get v k dflt = Inl AttributeError"

text \<open>\<open>d[k]\<close> with a string key: KeyError on a dict without the key, TypeError on
  anything that is not a dict.\<close>

fun subscript :: "json \<Rightarrow> string \<Rightarrow> exn + json" where
  "subscript (JObj kvs) k = (case map_of kvs k of None \<Rightarrow> Inl (KeyError k) | Some v \<Rightarrow> Inr v)"
| "subscript v k = Inl TypeError"

text \<open>\<open>v == True\<close>: Python's \<open>True\<close> equals the bool and the number one.\<close>

fun eq_True :: "json \<Rightarrow> bool" where
  "eq_True (JBool b) = b"
| "eq_True (JNum n) = (n = 1)"
| "eq_True v = False"

fun startswith :: "string \<Rightarrow> string \<Rightarrow> bool" where
  "startswith s [] = True"
| "startswith [] (p # ps) = False"
| "startswith (c # cs) (p # ps) = (c = p \<and> startswith cs ps)"

text \<open>
  \<open>s.replace(old, new)\<close> and \<open>s.replace(old, new, 1)\<close> for a non-empty \<open>old\<close>,
  scanning from the left. The counter \<open>k\<close> is the number of characters of a
  matched \<open>old\<close> still to be skipped.
\<close>

fun replace_from :: "string \<Rightarrow> string \<Rightarrow> nat \<Rightarrow> string \<Rightarrow> string" where
  "replace_from old new k [] = []"
| "replace_from old new (Suc k) (c # cs) = replace_from old new k cs"
| "replace_from old new 0 (c # cs) =
     (if startswith (c # cs) old
      then new @ replace_from old new (length old - 1) cs
      else c # replace_from old new 0 cs)"

definition replace_all :: "string \<Rightarrow> string \<Rightarrow> string \<Rightarrow> string" where
  "replace_all old new s = replace_from old new 0 s"

fun replace_first :: "string \<Rightarrow> string \<Rightarrow> string \<Rightarrow> string" where
  "replace_first old new [] = []"
| "replace_first old new (c # cs) =
     (if startswith (c # cs) old
      then new @ drop (length old) (c # cs)
      else c # replace_first old new cs)"

text \<open>\<open>a, b = s.split(sep, 1)\<close>: \<open>None\<close> when there is no separator, where the
  unpacking of the one-element list raises ValueError.\<close>

fun split_once :: "char \<Rightarrow> string \<Rightarrow> (string \<times> string) option" where
  "split_once sep [] = None"
| "split_once sep (c # cs) =
     (if c = sep then Some ([], cs)
      else (case split_once sep cs of
              None \<Rightarrow> None
            | Some (a, b) \<Rightarrow> Some (c # a, b)))"

text \<open>\<open>HMAC.hexdigest()\<close>: two lower-case hexadecimal digits per digest byte.\<close>

definition hexdigit :: "nat \<Rightarrow> char" where
  "hexdigit n = ''0123456789abcdef'' ! (n mod 16)"

definition hexdigest :: "string \<Rightarrow> string" where
  "hexdigest bs =
     concat (map (\<lambda>c. [hexdigit (of_char c div 16), hexdigit (of_char c mod 16)]) bs)"

text \<open>
  \<open>hmac.compare_digest(a, b)\<close> on two \<open>str\<close>: a string with a character outside
  ASCII raises TypeError. Header values reach the handler decoded as Latin-1, one
  character per byte, so such a string can arrive.
\<close>

definition is_ascii :: "string \<Rightarrow> bool" where
  "is_ascii s = list_all (\<lambda>c. (of_char c :: nat) < 128) s"

definition compare_digest :: "string \<Rightarrow> string \<Rightarrow> exn + bool" where
  "compare_digest a b = (if is_ascii a \<and> is_ascii b then Inr (a = b) else Inl TypeError)"

definition sq :: string where
  "sq = [CHR 0x27]"

section \<open>Library functions, request, environment, store\<close>

text \<open>
  The library functions the handlers call and whose bodies are not part of the
  repository, as parameters: \<open>hmac_sha256 key msg\<close> is the raw digest of
  \<open>hmac.new(key, msg, hashlib.sha256)\<close>; \<open>fromisoformat\<close> and \<open>int_of_str\<close> are
  \<open>datetime.fromisoformat\<close> and \<open>int\<close> on a \<open>str\<close>, with \<open>None\<close> for their
  ValueError; \<open>json_dumps\<close> is \<open>json.dumps\<close>; \<open>py_str\<close> is the text an f-string
  shows for a value that is not a \<open>str\<close>; \<open>valid_url\<close> is the check of mongoengine's
  \<open>URLField\<close>. A datetime is its position on the time line.
\<close>

record pylib =
  hmac_sha256 :: "string \<Rightarrow> string \<Rightarrow> string"
  fromisoformat :: "string \<Rightarrow> int option"
  int_of_str :: "string \<Rightarrow> int option"
  json_dumps :: "json \<Rightarrow> string"
  py_str :: "json \<Rightarrow> string"
  valid_url :: "string \<Rightarrow> bool"

text \<open>
  A Flask request: the headers, the raw body \<open>request.data\<close>, what
  \<open>request.get_json(force=True)\<close> yields for that body (\<open>None\<close> when it raises),
  and the query parameters \<open>request.args\<close>.
\<close>

record request =
  headers :: "(string \<times> string) list"
  data :: string
  get_json :: "json option"
  args :: "(string \<times> string) list"

text \<open>
  What a request meets outside itself: the configured secret, the value
  \<open>datetime.utcnow()\<close> returns inside the handler, whether the database accepts a
  write, and the clock of the insertion.
\<close>

record env =
  GITHUB_SECRET :: string
  utcnow :: int
  db_ok :: bool
  insert_time :: int

record 'd store =
  docs :: "'d list"
  next_id :: nat

definition format_value :: "pylib \<Rightarrow> json \<Rightarrow> string" where
  "format_value lib v = (case v of JStr s \<Rightarrow> s | _ \<Rightarrow> py_str lib v)"

text \<open>\<open>datetime.fromisoformat(x.replace("Z", "+00:00"))\<close>, as both files write it.\<close>

definition parse_timestamp :: "pylib \<Rightarrow> json \<Rightarrow> exn + int" where
  "parse_timestamp lib x =
     (case x of
        JStr s \<Rightarrow> (case fromisoformat lib (replace_all ''Z'' ''+00:00'' s) of
                    None \<Rightarrow> Inl ValueError
                  | Some t \<Rightarrow> Inr t)
      | _ \<Rightarrow> Inl AttributeError)"

section \<open>run.py\<close>

subsection \<open>The record and the store\<close>

text \<open>The fields \<open>github_webhook\<close> passes to the constructor of \<open>GitHubEvent\<close>.\<close>

record normalized_event =
  event_type :: string
  author :: json
  from_branch :: json
  to_branch :: json
  timestamp :: int
  repo_full_name :: json
  raw_payload :: string

record github_event = normalized_event +
  ev_id :: nat
  received_at :: int

text \<open>
  Modelled from the spec: the document class \<open>GitHubEvent\<close>, which run.py imports
  from \<open>models\<close> and no source file defines, and its \<open>save\<close>. Following section 4.3
  of the specification, \<open>save\<close> persists one record, assigns it an identifier no
  other record has and the insertion time as \<open>received_at\<close>, and fails with a
  storage error when the persistence layer does.
\<close>

definition GitHubEvent_save ::
  "env \<Rightarrow> github_event store \<Rightarrow> normalized_event \<Rightarrow> exn + github_event store" where
  "GitHubEvent_save env st r =
     (if db_ok env
      then Inr (st\<lparr>docs := docs st @
                  [\<lparr>event_type = event_type r, author = author r,
                    from_branch = from_branch r, to_branch = to_branch r,
                    timestamp = timestamp r, repo_full_name = repo_full_name r,
                    raw_payload = raw_payload r,
                    ev_id = next_id st, received_at = insert_time env\<rparr>],
                next_id := Suc (next_id st)\<rparr>)
      else Inl StorageError)"

text \<open>
  \<open>datetime.fromisoformat(x.replace("Z", "+00:00")) if x else datetime.utcnow()\<close>,
  the event time of the two pull-request branches.
\<close>

definition time_or_now :: "pylib \<Rightarrow> env \<Rightarrow> json \<Rightarrow> exn + int" where
  "time_or_now lib env x = (if truthy x then parse_timestamp lib x else Inr (utcnow env))"

subsection \<open>verify_github_signature (run.py, lines 34 to 54)\<close>

definition run_verify_github_signature :: "pylib \<Rightarrow> env \<Rightarrow> request \<Rightarrow> exn + unit" where
  "run_verify_github_signature lib env request =
     (case map_of (headers request) ''X-Hub-Signature-256'' of
        None \<Rightarrow> Inl (HTTPException 400 ''Missing X-Hub-Signature-256 header'')
      | Some signature_header \<Rightarrow>
          if signature_header = []
          then Inl (HTTPException 400 ''Missing X-Hub-Signature-256 header'')
          else (case split_once CHR ''='' signature_header of
                  None \<Rightarrow> Inl (HTTPException 400 ''Malformed X-Hub-Signature-256 header'')
                | Some (sha_name, signature) \<Rightarrow>
                    if sha_name \<noteq> ''sha256''
                    then Inl (HTTPException 400 ''We only support sha256 signatures'')
                    else ebind (compare_digest
                                  (hexdigest (hmac_sha256 lib (GITHUB_SECRET env) (data request)))
                                  signature)
                           (\<lambda>same. if \<not> same
                                    then Inl (HTTPException 400 ''Invalid signature'')
                                    else Inr ())))"

subsection \<open>github_webhook (run.py, lines 57 to 154)\<close>

text \<open>Lines 68 and 69: the verifier runs only when a secret is configured.\<close>

definition signature_gate :: "pylib \<Rightarrow> env \<Rightarrow> request \<Rightarrow> exn + unit" where
  "signature_gate lib env request =
     (if GITHUB_SECRET env \<noteq> [] then run_verify_github_signature lib env request
      else Inr ())"

text \<open>Line 77: \<open>request.headers.get("X-GitHub-Event", "")\<close>.\<close>

definition event_header_of :: "request \<Rightarrow> string" where
  "event_header_of request =
     (case map_of (headers request) ''X-GitHub-Event'' of None \<Rightarrow> [] | Some h \<Rightarrow> h)"

text \<open>Line 78: \<open>payload.get("repository", {}).get("full_name", "unknown/unknown")\<close>.\<close>

definition repo_full_of :: "json \<Rightarrow> exn + json" where
  "repo_full_of payload =
     ebind (dict_get payload ''repository'' (JObj []))
       (\<lambda>repository. dict_get repository ''full_name'' (JStr ''unknown/unknown''))"

text \<open>
  Lines 87 to 132 either return the ignore message or leave the five local
  variables set.
\<close>

datatype outcome =
    Ignored string
  | Extracted string json json json int

text \<open>
  Line 92: \<open>ref.replace("refs/heads/", "", 1) if ref.startswith("refs/heads/")
  else ref\<close>; only a \<open>str\<close> has \<open>startswith\<close>.
\<close>

definition branch_of_ref :: "json \<Rightarrow> exn + json" where
  "branch_of_ref ref =
     (case ref of
        JStr r \<Rightarrow> Inr (JStr (if startswith r ''refs/heads/''
                              then replace_first ''refs/heads/'' [] r else r))
      | _ \<Rightarrow> Inl AttributeError)"

text \<open>Lines 96 to 100: the time of the head commit, or now.\<close>

definition head_commit_time :: "pylib \<Rightarrow> env \<Rightarrow> json \<Rightarrow> exn + int" where
  "head_commit_time lib env head =
     (if truthy head
      then ebind (dict_get head ''timestamp'' JNull) (\<lambda>ts.
             if truthy ts
             then ebind (subscript head ''timestamp'') (parse_timestamp lib)
             else Inr (utcnow env))
      else Inr (utcnow env))"

text \<open>Lines 88 to 100, the push branch.\<close>

definition push_branch :: "pylib \<Rightarrow> env \<Rightarrow> json \<Rightarrow> exn + outcome" where
  "push_branch lib env payload =
     ebind (subscript payload ''pusher'') (\<lambda>pusher.
     ebind (subscript pusher ''name'') (\<lambda>author.
     ebind (dict_get payload ''ref'' (JStr [])) (\<lambda>ref.
     ebind (branch_of_ref ref) (\<lambda>to_branch.
     ebind (dict_get payload ''head_commit'' (JObj [])) (\<lambda>head.
     ebind (head_commit_time lib env head) (\<lambda>event_time.
     Inr (Extracted ''push'' author JNull to_branch event_time)))))))"

text \<open>Lines 108 to 115, a pull request opened.\<close>

definition opened_branch :: "pylib \<Rightarrow> env \<Rightarrow> json \<Rightarrow> exn + outcome" where
  "opened_branch lib env pr_data =
     ebind (subscript pr_data ''user'') (\<lambda>user.
     ebind (subscript user ''login'') (\<lambda>author.
     ebind (subscript pr_data ''head'') (\<lambda>head.
     ebind (subscript head ''ref'') (\<lambda>from_branch.
     ebind (subscript pr_data ''base'') (\<lambda>base.
     ebind (subscript base ''ref'') (\<lambda>to_branch.
     ebind (dict_get pr_data ''created_at'' JNull) (\<lambda>created_at.
     ebind (time_or_now lib env created_at) (\<lambda>event_time.
     Inr (Extracted ''pull_request'' author from_branch to_branch event_time)))))))))"

text \<open>Lines 119 to 125, a pull request closed and merged.\<close>

definition merged_branch :: "pylib \<Rightarrow> env \<Rightarrow> json \<Rightarrow> exn + outcome" where
  "merged_branch lib env pr_data =
     ebind (subscript pr_data ''merged_by'') (\<lambda>merged_by.
     ebind (subscript merged_by ''login'') (\<lambda>author.
     ebind (subscript pr_data ''head'') (\<lambda>head.
     ebind (subscript head ''ref'') (\<lambda>from_branch.
     ebind (subscript pr_data ''base'') (\<lambda>base.
     ebind (subscript base ''ref'') (\<lambda>to_branch.
     ebind (dict_get pr_data ''merged_at'' JNull) (\<lambda>merged_at.
     ebind (time_or_now lib env merged_at) (\<lambda>event_time.
     Inr (Extracted ''merge'' author from_branch to_branch event_time)))))))))"

text \<open>Lines 87 to 132, the dispatch on the event header and the action.\<close>

definition dispatch :: "pylib \<Rightarrow> env \<Rightarrow> string \<Rightarrow> json \<Rightarrow> exn + outcome" where
  "dispatch lib env event_header payload =
     (if event_header = ''push'' then push_branch lib env payload
      else if event_header = ''pull_request'' then
        ebind (dict_get payload ''action'' (JStr [])) (\<lambda>pr_action.
        ebind (dict_get payload ''pull_request'' (JObj [])) (\<lambda>pr_data.
          if pr_action = JStr ''opened'' then opened_branch lib env pr_data
          else ebind (if pr_action = JStr ''closed''
                      then ebind (dict_get pr_data ''merged'' JNull) (\<lambda>m. Inr (eq_True m))
                      else Inr False) (\<lambda>merged.
                 if merged then merged_branch lib env pr_data
                 else Inr (Ignored (''Ignored pull_request action='' @ sq @
                                     format_value lib pr_action @ sq)))))
      else Inr (Ignored (''Ignored event type='' @ sq @ event_header @ sq)))"

text \<open>
  Line 135. The event type is one of three non-empty literals and a datetime is
  always true, so the test comes down to the author and the target branch.
\<close>

definition required_fields :: "string \<Rightarrow> json \<Rightarrow> json \<Rightarrow> bool" where
  "required_fields ev_type ev_author ev_to =
     (truthy (JStr ev_type) \<and> truthy ev_author \<and> truthy ev_to)"

definition github_webhook_body ::
  "pylib \<Rightarrow> env \<Rightarrow> request \<Rightarrow> github_event store
     \<Rightarrow> exn + (string \<times> nat \<times> github_event store)" where
  "github_webhook_body lib env request st =
     ebind (signature_gate lib env request) (\<lambda>_.
     ebind (case get_json request of
              None \<Rightarrow> Inl (HTTPException 400 ''Invalid JSON'')
            | Some p \<Rightarrow> Inr p) (\<lambda>payload.
     ebind (repo_full_of payload) (\<lambda>repo_full.
     ebind (dispatch lib env (event_header_of request) payload) (\<lambda>out.
       case out of
         Ignored msg \<Rightarrow> Inr (msg, 200, st)
       | Extracted ev_type ev_author ev_from ev_to event_time \<Rightarrow>
           if \<not> required_fields ev_type ev_author ev_to
           then Inl (HTTPException 400 ''Missing required fields from payload'')
           else (case GitHubEvent_save env st
                        \<lparr>event_type = ev_type, author = ev_author,
                         from_branch = ev_from, to_branch = ev_to,
                         timestamp = event_time, repo_full_name = repo_full,
                         raw_payload = take 16000 (json_dumps lib payload)\<rparr> of
                   Inl e \<Rightarrow> Inl (HTTPException 500 ''Database error'')
                 | Inr st' \<Rightarrow> Inr (''Recorded '' @ ev_type @ '' event'', 201, st'))))))"

definition github_webhook ::
  "pylib \<Rightarrow> env \<Rightarrow> request \<Rightarrow> github_event store \<Rightarrow> response \<times> github_event store" where
  "github_webhook lib env request st =
     (case github_webhook_body lib env request st of
        Inl e \<Rightarrow> (flask_error e, st)
      | Inr (msg, code, st') \<Rightarrow> (Jsonify msg code, st'))"

subsection \<open>list_events (run.py, lines 157 to 180)\<close>

text \<open>
  \<open>QuerySet.order_by("-timestamp")\<close> sorts by the key, largest first;
  \<open>QuerySet.limit(n)\<close> hands \<open>n\<close> to the MongoDB cursor, where a positive \<open>n\<close> caps
  the result at \<open>n\<close> documents, zero means no cap and a negative \<open>n\<close> caps it at
  \<open>|n|\<close>.
\<close>

definition order_by_desc :: "('d \<Rightarrow> int) \<Rightarrow> 'd list \<Rightarrow> 'd list" where
  "order_by_desc key ds = sort_key (\<lambda>d. - key d) ds"

definition limit_docs :: "int \<Rightarrow> 'd list \<Rightarrow> 'd list" where
  "limit_docs n ds = (if n = 0 then ds else take (nat \<bar>n\<bar>) ds)"

record event_out =
  out_id :: nat
  out_event_type :: string
  out_author :: json
  out_from_branch :: json
  out_to_branch :: json
  out_timestamp :: int
  out_repo_full_name :: json

definition event_dict :: "github_event \<Rightarrow> event_out" where
  "event_dict ev =
     \<lparr>out_id = ev_id ev, out_event_type = event_type ev, out_author = author ev,
      out_from_branch = from_branch ev, out_to_branch = to_branch ev,
      out_timestamp = timestamp ev, out_repo_full_name = repo_full_name ev\<rparr>"

definition run_limit :: "pylib \<Rightarrow> request \<Rightarrow> int" where
  "run_limit lib request =
     (case map_of (args request) ''limit'' of
        None \<Rightarrow> 20
      | Some s \<Rightarrow> (case int_of_str lib s of None \<Rightarrow> 20 | Some n \<Rightarrow> n))"

definition run_list_events ::
  "pylib \<Rightarrow> request \<Rightarrow> github_event store \<Rightarrow> exn + (event_out list \<times> nat)" where
  "run_list_events lib request st =
     Inr (map event_dict (limit_docs (run_limit lib request) (order_by_desc timestamp (docs st))),
          200)"

section \<open>app/app.py and Models.py, the push-only variant\<close>

subsection \<open>The documents of Models.py\<close>

record commit_embedded =
  commit_id :: json
  message :: json
  commit_timestamp :: int
  url :: json
  author_name :: json
  author_email :: json

record push_fields =
  repo_name :: json
  pusher_name :: json
  pusher_email :: json
  pushed_at :: int
  commits :: "commit_embedded list"
  branch :: string
  push_raw_payload :: string

record push_event = push_fields +
  push_id :: nat

text \<open>
  What \<open>Document.save\<close> checks before it writes: a \<open>StringField(required=True)\<close>
  holds a \<open>str\<close>, a \<open>URLField\<close> a \<open>str\<close> that is a URL. The datetime fields hold
  datetimes by construction.
\<close>

fun is_str :: "json \<Rightarrow> bool" where
  "is_str (JStr s) = True"
| "is_str v = False"

definition CommitEmbedded_valid :: "pylib \<Rightarrow> commit_embedded \<Rightarrow> bool" where
  "CommitEmbedded_valid lib c =
     (is_str (commit_id c) \<and> is_str (message c) \<and>
      (case url c of JStr u \<Rightarrow> valid_url lib u | _ \<Rightarrow> False) \<and>
      is_str (author_name c) \<and> is_str (author_email c))"

definition PushEvent_valid :: "pylib \<Rightarrow> push_fields \<Rightarrow> bool" where
  "PushEvent_valid lib d =
     (is_str (repo_name d) \<and> is_str (pusher_name d) \<and> is_str (pusher_email d) \<and>
      list_all (CommitEmbedded_valid lib) (commits d))"

definition PushEvent_save ::
  "pylib \<Rightarrow> env \<Rightarrow> push_event store \<Rightarrow> push_fields \<Rightarrow> exn + push_event store" where
  "PushEvent_save lib env st d =
     (if \<not> PushEvent_valid lib d then Inl ValidationError
      else if \<not> db_ok env then Inl StorageError
      else Inr (st\<lparr>docs := docs st @
                  [\<lparr>repo_name = repo_name d, pusher_name = pusher_name d,
                    pusher_email = pusher_email d, pushed_at = pushed_at d,
                    commits = commits d, branch = branch d,
                    push_raw_payload = push_raw_payload d, push_id = next_id st\<rparr>],
                next_id := Suc (next_id st)\<rparr>))"

subsection \<open>verify_github_signature (app.py, lines 31 to 51)\<close>

definition app_verify_github_signature :: "pylib \<Rightarrow> env \<Rightarrow> request \<Rightarrow> exn + unit" where
  "app_verify_github_signature lib env request =
     (case map_of (headers request) ''X-Hub-Signature-256'' of
        None \<Rightarrow> Inl (HTTPException 400 ''Missing signature header'')
      | Some signature_header \<Rightarrow>
          (case split_once CHR ''='' signature_header of
             None \<Rightarrow> Inl ValueError
           | Some (sha_name, signature) \<Rightarrow>
               if sha_name \<noteq> ''sha256''
               then Inl (HTTPException 400 ''Unsupported signature type'')
               else ebind (compare_digest
                             (hexdigest (hmac_sha256 lib (GITHUB_SECRET env) (data request)))
                             signature)
                      (\<lambda>same. if \<not> same
                               then Inl (HTTPException 400 ''Invalid signature'')
                               else Inr ())))"

subsection \<open>handle_github_webhook (app.py, lines 54 to 115)\<close>

text \<open>\<open>for c in raw_commits\<close>: a list gives its elements, a dict its keys, a string
  its characters; nothing else can be iterated.\<close>

fun iterate :: "json \<Rightarrow> exn + json list" where
  "iterate (JArr xs) = Inr xs"
| "iterate (JObj kvs) = Inr (map (\<lambda>kv. JStr (fst kv)) kvs)"
| "iterate (JStr s) = Inr (map (\<lambda>c. JStr [c]) s)"
| "iterate v = Inl TypeError"

text \<open>Lines 89 to 96, the body of the loop.\<close>

definition commit_doc :: "pylib \<Rightarrow> json \<Rightarrow> exn + commit_embedded" where
  "commit_doc lib c =
     ebind (subscript c ''id'') (\<lambda>c_id.
     ebind (subscript c ''message'') (\<lambda>c_message.
     ebind (subscript c ''timestamp'') (\<lambda>c_ts.
     ebind (parse_timestamp lib c_ts) (\<lambda>c_time.
     ebind (subscript c ''url'') (\<lambda>c_url.
     ebind (subscript c ''author'') (\<lambda>a1.
     ebind (subscript a1 ''name'') (\<lambda>a_name.
     ebind (subscript c ''author'') (\<lambda>a2.
     ebind (subscript a2 ''email'') (\<lambda>a_email.
     Inr \<lparr>commit_id = c_id, message = c_message, commit_timestamp = c_time,
          url = c_url, author_name = a_name, author_email = a_email\<rparr>)))))))))"

fun commit_docs :: "pylib \<Rightarrow> json list \<Rightarrow> exn + commit_embedded list" where
  "commit_docs lib [] = Inr []"
| "commit_docs lib (c # cs) =
     ebind (commit_doc lib c) (\<lambda>ce.
     ebind (commit_docs lib cs) (\<lambda>ces. Inr (ce # ces)))"

text \<open>Lines 79 to 109, the block under \<open>try\<close>.\<close>

definition push_try_block ::
  "pylib \<Rightarrow> env \<Rightarrow> json \<Rightarrow> push_event store \<Rightarrow> exn + push_event store" where
  "push_try_block lib env payload st =
     ebind (subscript payload ''repository'') (\<lambda>repository.
     ebind (subscript repository ''full_name'') (\<lambda>repo_full_name.
     ebind (subscript payload ''pusher'') (\<lambda>p1.
     ebind (subscript p1 ''name'') (\<lambda>p_name.
     ebind (subscript payload ''pusher'') (\<lambda>p2.
     ebind (subscript p2 ''email'') (\<lambda>p_email.
     ebind (subscript payload ''ref'') (\<lambda>ref.
     ebind (case ref of JStr r \<Rightarrow> Inr (replace_first ''refs/heads/'' [] r)
                      | _ \<Rightarrow> Inl AttributeError) (\<lambda>br.
     ebind (dict_get payload ''commits'' (JArr [])) (\<lambda>raw_commits.
     ebind (iterate raw_commits) (\<lambda>cs.
     ebind (commit_docs lib cs) (\<lambda>docs_of_commits.
     PushEvent_save lib env st
       \<lparr>repo_name = repo_full_name, pusher_name = p_name, pusher_email = p_email,
        pushed_at = utcnow env, commits = docs_of_commits, branch = br,
        push_raw_payload = json_dumps lib payload\<rparr>)))))))))))"

definition handle_github_webhook_body ::
  "pylib \<Rightarrow> env \<Rightarrow> request \<Rightarrow> push_event store
     \<Rightarrow> exn + (string \<times> nat \<times> push_event store)" where
  "handle_github_webhook_body lib env request st =
     ebind (if GITHUB_SECRET env \<noteq> [] then app_verify_github_signature lib env request
            else Inr ()) (\<lambda>_.
     ebind (case get_json request of
              None \<Rightarrow> Inl (HTTPException 400 ''Invalid JSON payload'')
            | Some p \<Rightarrow> Inr p) (\<lambda>payload.
     if event_header_of request \<noteq> ''push''
     then Inr (''Ignored: not a push event'', 200, st)
     else (case push_try_block lib env payload st of
             Inl (KeyError k) \<Rightarrow>
               Inl (HTTPException 400 (''Missing expected field: '' @ sq @ k @ sq))
           | Inl e \<Rightarrow> Inl e
           | Inr st' \<Rightarrow> Inr (''Push event recorded'', 201, st'))))"

definition handle_github_webhook ::
  "pylib \<Rightarrow> env \<Rightarrow> request \<Rightarrow> push_event store \<Rightarrow> response \<times> push_event store" where
  "handle_github_webhook lib env request st =
     (case handle_github_webhook_body lib env request st of
        Inl e \<Rightarrow> (flask_error e, st)
      | Inr (msg, code, st') \<Rightarrow> (Jsonify msg code, st'))"

subsection \<open>list_events (app.py, lines 118 to 151)\<close>

definition app_limit :: "pylib \<Rightarrow> request \<Rightarrow> exn + int" where
  "app_limit lib request =
     (case map_of (args request) ''limit'' of
        None \<Rightarrow> Inr 20
      | Some s \<Rightarrow> (case int_of_str lib s of None \<Rightarrow> Inl ValueError | Some n \<Rightarrow> Inr n))"

definition app_list_events ::
  "pylib \<Rightarrow> request \<Rightarrow> push_event store \<Rightarrow> exn + (push_event list \<times> nat)" where
  "app_list_events lib request st =
     ebind (app_limit lib request) (\<lambda>limit.
     Inr (limit_docs limit (order_by_desc pushed_at (docs st)), 200))"

text \<open>The status the client sees for a list request.\<close>

definition list_status :: "exn + ('a \<times> nat) \<Rightarrow> nat" where
  "list_status r = (case r of Inl e \<Rightarrow> status_code (flask_error e) | Inr (out, c) \<Rightarrow> c)"

section \<open>Fields of a payload by path\<close>

text \<open>
  \<open>at_path v [k1, k2]\<close> is the field the specification writes \<open>k1.k2\<close>: present
  when every step but the last is a dict holding the next key.
\<close>

fun field :: "json \<Rightarrow> string \<Rightarrow> json option" where
  "field (JObj kvs) k = map_of kvs k"
| "field v k = None"

fun at_path :: "json \<Rightarrow> string list \<Rightarrow> json option" where
  "at_path v [] = Some v"
| "at_path v (k # ks) = (case field v k of None \<Rightarrow> None | Some w \<Rightarrow> at_path w ks)"

text \<open>\<open>d.get(k)\<close> on a payload known to be a dict: the field, or \<open>None\<close>.\<close>

definition field_or_null :: "json \<Rightarrow> string \<Rightarrow> json" where
  "field_or_null v k = (case field v k of None \<Rightarrow> JNull | Some w \<Rightarrow> w)"

text \<open>\<open>d.get(k, default)\<close> on a payload known to be a dict.\<close>

definition get_or :: "json \<Rightarrow> string \<Rightarrow> json \<Rightarrow> json" where
  "get_or v k dflt = (case field v k of None \<Rightarrow> dflt | Some w \<Rightarrow> w)"

text \<open>The delivery passed the signature gate, its body parsed, and line 78 read
  the repository name: lines 67 to 78 completed.\<close>

definition reaches_dispatch :: "pylib \<Rightarrow> env \<Rightarrow> request \<Rightarrow> json \<Rightarrow> json \<Rightarrow> bool" where
  "reaches_dispatch lib env request payload repo_full =
     (signature_gate lib env request = Inr () \<and>
      get_json request = Some payload \<and>
      repo_full_of payload = Inr repo_full)"

text \<open>The requests of a run, each with its environment, handled one after the
  other from a given store.\<close>

fun deliveries ::
  "pylib \<Rightarrow> (env \<times> request) list \<Rightarrow> github_event store \<Rightarrow> github_event store" where
  "deliveries lib [] st = st"
| "deliveries lib ((env, request) # rs) st =
     deliveries lib rs (snd (github_webhook lib env request st))"

section \<open>Concrete requests\<close>

text \<open>
  A library instance to run the handlers on concrete requests: decimal literals
  for \<open>int\<close>, two ISO-8601 strings with their epoch seconds for
  \<open>datetime.fromisoformat\<close>, and a keyed digest that is not SHA-256 (the handlers
  only compare its hexadecimal form with the header).
\<close>

fun digits_value :: "nat \<Rightarrow> string \<Rightarrow> nat option" where
  "digits_value acc [] = Some acc"
| "digits_value acc (c # cs) =
     (if 48 \<le> (of_char c :: nat) \<and> (of_char c :: nat) \<le> 57
      then digits_value (10 * acc + (of_char c - 48)) cs
      else None)"

definition int_literal :: "string \<Rightarrow> int option" where
  "int_literal s =
     (case s of
        [] \<Rightarrow> None
      | c # cs \<Rightarrow>
          if c = CHR ''-''
          then (if cs = [] then None else map_option (\<lambda>n. - int n) (digits_value 0 cs))
          else map_option int (digits_value 0 s))"

definition iso_table :: "string \<Rightarrow> int option" where
  "iso_table s =
     (if s = ''2025-06-03T14:30:00+00:00'' then Some 1748961000
      else if s = ''2025-06-04T09:00:00+00:00'' then Some 1749027600
      else None)"

definition sample_lib :: pylib where
  "sample_lib =
     \<lparr>hmac_sha256 = (\<lambda>key msg. rev (key @ msg)),
      fromisoformat = iso_table,
      int_of_str = int_literal,
      json_dumps = (\<lambda>v. ''{}''),
      py_str = (\<lambda>v. ''None''),
      valid_url = (\<lambda>u. True)\<rparr>"

definition open_env :: env where
  "open_env = \<lparr>GITHUB_SECRET = [], utcnow = 1749000000, db_ok = True, insert_time = 1749000001\<rparr>"

definition secret_env :: env where
  "secret_env = \<lparr>GITHUB_SECRET = ''s'', utcnow = 1749000000, db_ok = True, insert_time = 1749000001\<rparr>"

definition empty_store :: "'d store" where
  "empty_store = \<lparr>docs = [], next_id = 0\<rparr>"

definition webhook_request :: "string \<Rightarrow> json \<Rightarrow> request" where
  "webhook_request event payload =
     \<lparr>headers = [(''X-GitHub-Event'', event)], data = ''{}'', get_json = Some payload, args = []\<rparr>"

definition signed_request :: "string \<Rightarrow> request" where
  "signed_request sig =
     \<lparr>headers = [(''X-GitHub-Event'', ''push''), (''X-Hub-Signature-256'', sig)],
      data = ''{}'', get_json = Some (JObj []), args = []\<rparr>"

definition list_request :: "(string \<times> string) list \<Rightarrow> request" where
  "list_request query = \<lparr>headers = [], data = [], get_json = None, args = query\<rparr>"

text \<open>The push payload of section 8 of the specification.\<close>

definition push_payload :: json where
  "push_payload =
     JObj [(''pusher'', JObj [(''name'', JStr ''alice'')]),
           (''ref'', JStr ''refs/heads/main''),
           (''head_commit'', JObj [(''timestamp'', JStr ''2025-06-03T14:30:00Z'')]),
           (''repository'', JObj [(''full_name'', JStr ''o/r'')])]"

text \<open>A pull request closed and merged.\<close>

definition merged_payload :: json where
  "merged_payload =
     JObj [(''action'', JStr ''closed''),
           (''pull_request'',
              JObj [(''merged'', JBool True),
                    (''merged_by'', JObj [(''login'', JStr ''bob'')]),
                    (''head'', JObj [(''ref'', JStr ''feature'')]),
                    (''base'', JObj [(''ref'', JStr ''main'')]),
                    (''merged_at'', JStr ''2025-06-04T09:00:00Z'')]),
           (''repository'', JObj [(''full_name'', JStr ''o/r'')])]"

text \<open>A push whose pusher has the empty name.\<close>

definition empty_author_payload :: json where
  "empty_author_payload =
     JObj [(''pusher'', JObj [(''name'', JStr [])]),
           (''ref'', JStr ''refs/heads/main''),
           (''repository'', JObj [(''full_name'', JStr ''o/r'')])]"

text \<open>Deliveries whose timestamp is not ISO-8601: a push with one commit, a
  pull request opened, a pull request merged.\<close>

definition bad_time_push :: json where
  "bad_time_push =
     JObj [(''pusher'', JObj [(''name'', JStr ''alice''), (''email'', JStr ''a@example.org'')]),
           (''ref'', JStr ''refs/heads/main''),
           (''head_commit'', JObj [(''timestamp'', JStr ''yesterday'')]),
           (''commits'',
              JArr [JObj [(''id'', JStr ''c0ffee''), (''message'', JStr ''fix''),
                          (''timestamp'', JStr ''yesterday''),
                          (''url'', JStr ''https://example.org/c0ffee''),
                          (''author'', JObj [(''name'', JStr ''alice''),
                                              (''email'', JStr ''a@example.org'')])]]),
           (''repository'', JObj [(''full_name'', JStr ''o/r'')])]"

definition bad_time_pr :: json where
  "bad_time_pr =
     JObj [(''user'', JObj [(''login'', JStr ''carol'')]),
           (''merged'', JBool True),
           (''merged_by'', JObj [(''login'', JStr ''bob'')]),
           (''head'', JObj [(''ref'', JStr ''feature'')]),
           (''base'', JObj [(''ref'', JStr ''main'')]),
           (''created_at'', JStr ''yesterday''),
           (''merged_at'', JStr ''yesterday'')]"

definition bad_time_request :: "string \<Rightarrow> request" where
  "bad_time_request action =
     webhook_request ''pull_request''
       (JObj [(''action'', JStr action), (''pull_request'', bad_time_pr)])"

text \<open>A push of the tag \<open>refs/heads/x\<close>, and a push whose \<open>ref\<close> has no prefix.\<close>

definition tag_push :: json where
  "tag_push =
     JObj [(''pusher'', JObj [(''name'', JStr ''alice''), (''email'', JStr ''a@example.org'')]),
           (''ref'', JStr ''refs/tags/refs/heads/x''),
           (''repository'', JObj [(''full_name'', JStr ''o/r'')])]"

definition plain_ref_push :: json where
  "plain_ref_push =
     JObj [(''pusher'', JObj [(''name'', JStr ''alice'')]),
           (''ref'', JStr ''main''),
           (''repository'', JObj [(''full_name'', JStr ''o/r'')])]"

text \<open>A pull request merged, with no \<open>merged_at\<close>.\<close>

definition merged_no_time_payload :: json where
  "merged_no_time_payload =
     JObj [(''action'', JStr ''closed''),
           (''pull_request'',
              JObj [(''merged'', JBool True),
                    (''merged_by'', JObj [(''login'', JStr ''bob'')]),
                    (''head'', JObj [(''ref'', JStr ''feature'')]),
                    (''base'', JObj [(''ref'', JStr ''main'')])]),
           (''repository'', JObj [(''full_name'', JStr ''o/r'')])]"

text \<open>A delivery with no header at all.\<close>

definition bare_request :: "json \<Rightarrow> request" where
  "bare_request payload =
     \<lparr>headers = [], data = ''{}'', get_json = Some payload, args = []\<rparr>"

text \<open>A push whose head commit has the empty string as timestamp.\<close>

definition empty_time_push :: json where
  "empty_time_push =
     JObj [(''pusher'', JObj [(''name'', JStr ''alice'')]),
           (''ref'', JStr ''refs/heads/main''),
           (''head_commit'', JObj [(''timestamp'', JStr [])]),
           (''repository'', JObj [(''full_name'', JStr ''o/r'')])]"

section \<open>Basic facts about the operations\<close>

lemma subscript_Inr_iff: "subscript v k = Inr w \<longleftrightarrow> field v k = Some w"
  by (cases v) (auto split: option.splits)

lemma dict_get_Inr_iff:
  "dict_get v k d = Inr w \<longleftrightarrow>
     (\<exists>kvs. v = JObj kvs \<and> w = (case map_of kvs k of None \<Rightarrow> d | Some x \<Rightarrow> x))"
  by (cases v) auto

lemma repo_full_of_obj: "repo_full_of payload = Inr r \<Longrightarrow> \<exists>kvs. payload = JObj kvs"
  by (cases payload) (auto simp: repo_full_of_def ebind_def)

lemma startswith_iff: "startswith s p \<longleftrightarrow> (\<exists>r. s = p @ r)"
  by (induction s p rule: startswith.induct) auto

lemma replace_first_prefix: "p \<noteq> [] \<Longrightarrow> replace_first p new (p @ r) = new @ r"
  by (cases p) (auto simp: startswith_iff)

subsection \<open>The three ways out of github_webhook once dispatch is reached\<close>

lemma github_webhook_ignored:
  assumes "reaches_dispatch lib env request payload repo_full"
    and "dispatch lib env (event_header_of request) payload = Inr (Ignored msg)"
  shows "github_webhook lib env request st = (Jsonify msg 200, st)"
  using assms
  by (simp add: reaches_dispatch_def github_webhook_def github_webhook_body_def ebind_def)

lemma github_webhook_raised:
  assumes "reaches_dispatch lib env request payload repo_full"
    and "dispatch lib env (event_header_of request) payload = Inl e"
  shows "github_webhook lib env request st = (flask_error e, st)"
  using assms
  by (simp add: reaches_dispatch_def github_webhook_def github_webhook_body_def ebind_def)

lemma github_webhook_extracted:
  assumes "reaches_dispatch lib env request payload repo_full"
    and "dispatch lib env (event_header_of request) payload = Inr (Extracted e a f t time)"
  shows "github_webhook lib env request st =
     (if \<not> required_fields e a t
      then (Aborted 400 ''Missing required fields from payload'', st)
      else if \<not> db_ok env then (Aborted 500 ''Database error'', st)
      else (Jsonify (''Recorded '' @ e @ '' event'') 201,
            st\<lparr>docs := docs st @
                 [\<lparr>event_type = e, author = a, from_branch = f, to_branch = t,
                   timestamp = time, repo_full_name = repo_full,
                   raw_payload = take 16000 (json_dumps lib payload),
                   ev_id = next_id st, received_at = insert_time env\<rparr>],
               next_id := Suc (next_id st)\<rparr>))"
  using assms
  by (simp add: reaches_dispatch_def github_webhook_def github_webhook_body_def ebind_def
      GitHubEvent_save_def)

lemma split_once_None_iff: "split_once sep s = None \<longleftrightarrow> sep \<notin> set s"
  by (induction s) (auto split: option.splits)

lemma split_once_Some_iff:
  "split_once sep s = Some (a, b) \<longleftrightarrow> s = a @ sep # b \<and> sep \<notin> set a"
proof (induction s arbitrary: a)
  case Nil
  then show ?case by simp
next
  case (Cons c cs)
  show ?case
  proof (cases "c = sep")
    case True
    then show ?thesis by (cases a) auto
  next
    case False
    show ?thesis
    proof (cases a)
      case Nil
      then show ?thesis using False by (auto split: option.splits)
    next
      case (Cons x xs)
      then show ?thesis using False Cons.IH[of xs] by (auto split: option.splits)
    qed
  qed
qed

lemma hexdigit_ascii: "(of_char (hexdigit n) :: nat) < 128"
proof -
  have "list_all (\<lambda>c. (of_char c :: nat) < 128) ''0123456789abcdef''" by simp
  moreover have "n mod 16 < length ''0123456789abcdef''" by simp
  ultimately show ?thesis unfolding hexdigit_def list_all_length by blast
qed

lemma is_ascii_hexdigest: "is_ascii (hexdigest bs)"
  by (induction bs) (simp_all add: is_ascii_def hexdigest_def hexdigit_ascii)

subsection \<open>The signature verifier of run.py, case by case\<close>

lemma run_verify_contract:
  "run_verify_github_signature lib env request =
     (case map_of (headers request) ''X-Hub-Signature-256'' of
        None \<Rightarrow> Inl (HTTPException 400 ''Missing X-Hub-Signature-256 header'')
      | Some h \<Rightarrow>
          if h = [] then Inl (HTTPException 400 ''Missing X-Hub-Signature-256 header'')
          else if CHR ''='' \<notin> set h then Inl (HTTPException 400 ''Malformed X-Hub-Signature-256 header'')
          else if \<not> startswith h ''sha256='' then Inl (HTTPException 400 ''We only support sha256 signatures'')
          else if \<not> is_ascii (drop 7 h) then Inl TypeError
          else if drop 7 h \<noteq> hexdigest (hmac_sha256 lib (GITHUB_SECRET env) (data request))
          then Inl (HTTPException 400 ''Invalid signature'')
          else Inr ())"
proof (cases "map_of (headers request) ''X-Hub-Signature-256''")
  case None
  then show ?thesis by (simp add: run_verify_github_signature_def)
next
  case (Some h)
  note hdr = this
  show ?thesis
  proof (cases "split_once CHR ''='' h")
    case None
    moreover from None have "CHR ''='' \<notin> set h" by (simp add: split_once_None_iff)
    ultimately show ?thesis using hdr
      by (simp add: run_verify_github_signature_def)
  next
    case (Some ab)
    obtain a b where ab: "ab = (a, b)" by (cases ab)
    with Some have h: "h = a @ CHR ''='' # b" "CHR ''='' \<notin> set a"
      by (simp_all add: split_once_Some_iff)
    have sw: "startswith h ''sha256='' \<longleftrightarrow> a = ''sha256''"
    proof
      assume "startswith h ''sha256=''"
      then obtain r where "a @ CHR ''='' # b = ''sha256='' @ r"
        using h(1) by (auto simp: startswith_iff)
      then have "split_once CHR ''='' (a @ CHR ''='' # b) = split_once CHR ''='' (''sha256='' @ r)" by simp
      then show "a = ''sha256''" using h(2)
        by (simp add: split_once_Some_iff[THEN iffD2, OF conjI[OF refl h(2)]])
    next
      assume "a = ''sha256''"
      then show "startswith h ''sha256=''" using h(1) by (simp add: startswith_iff)
    qed
    show ?thesis
    proof (cases "a = ''sha256''")
      case True
      then have "drop 7 h = b" using h(1) by simp
      then show ?thesis using \<open>map_of (headers request) ''X-Hub-Signature-256'' = Some h\<close> Some ab True sw h
        by (auto simp: run_verify_github_signature_def ebind_def compare_digest_def is_ascii_hexdigest)
    next
      case False
      then show ?thesis using \<open>map_of (headers request) ''X-Hub-Signature-256'' = Some h\<close> Some ab sw h
        by (auto simp: run_verify_github_signature_def)
    qed
  qed
qed

section \<open>The claims\<close>

lemmas run_defs = github_webhook_def github_webhook_body_def signature_gate_def
  event_header_of_def run_verify_github_signature_def repo_full_of_def dispatch_def
  push_branch_def branch_of_ref_def head_commit_time_def opened_branch_def merged_branch_def time_or_now_def required_fields_def
  GitHubEvent_save_def parse_timestamp_def format_value_def ebind_def compare_digest_def
  is_ascii_def sq_def replace_all_def

lemmas app_defs = handle_github_webhook_def handle_github_webhook_body_def
  event_header_of_def app_verify_github_signature_def push_try_block_def commit_doc_def
  PushEvent_save_def PushEvent_valid_def CommitEmbedded_valid_def parse_timestamp_def
  ebind_def compare_digest_def is_ascii_def sq_def replace_all_def

lemmas sample_defs = sample_lib_def open_env_def secret_env_def empty_store_def
  webhook_request_def signed_request_def list_request_def push_payload_def merged_payload_def empty_author_payload_def
  bad_time_push_def bad_time_pr_def bad_time_request_def
  tag_push_def plain_ref_push_def merged_no_time_payload_def bare_request_def
  empty_time_push_def
  iso_table_def int_literal_def

subsection \<open>C1: the signature verifier\<close>

text \<open>
  Both verifiers leave an exception uncaught where the contract asks for a 400:
  a signature that is not ASCII makes \<open>hmac.compare_digest\<close> raise TypeError.
\<close>

lemma run_verify_non_ascii:
  "github_webhook lib secret_env (signed_request (''sha256='' @ [CHR 0xE9])) st
     = (Unhandled TypeError, st)"
  by (simp add: run_defs sample_defs)

lemma app_verify_non_ascii:
  "handle_github_webhook lib secret_env (signed_request (''sha256='' @ [CHR 0xE9])) st
     = (Unhandled TypeError, st)"
  by (simp add: app_defs sample_defs)

text \<open>
  C1. With a secret configured, a signature header without \<open>=\<close> is a bad format
  and has to be answered with HTTP 400. With the secret \<open>s\<close> and the header
  \<open>sha256\<close>, \<open>verify_github_signature\<close> of app/app.py unpacks the one-element
  result of \<open>split\<close>, the ValueError is caught nowhere and the client gets
  HTTP 500; \<open>verify_github_signature\<close> of run.py catches it and answers 400.
\<close>

theorem signature_header_without_separator:
  "handle_github_webhook lib secret_env (signed_request ''sha256'') st
     = (Unhandled ValueError, st)
   \<and> status_code (fst (handle_github_webhook lib secret_env (signed_request ''sha256'') st))
     = 500
   \<and> github_webhook lib secret_env (signed_request ''sha256'') st'
     = (Aborted 400 ''Malformed X-Hub-Signature-256 header'', st')"
  by (simp add: run_defs app_defs sample_defs)

subsection \<open>C2: a required field is missing\<close>

text \<open>
  In run.py every required field is read with a subscript and nothing catches the
  KeyError: a push that reaches dispatch without \<open>pusher\<close> ends in HTTP 500.
\<close>

lemma run_push_without_pusher:
  assumes "reaches_dispatch lib env request payload repo_full"
    and "event_header_of request = ''push''"
    and "field payload ''pusher'' = None"
  shows "github_webhook lib env request st = (Unhandled (KeyError ''pusher''), st)"
proof -
  obtain kvs where "payload = JObj kvs"
    using assms(1) repo_full_of_obj by (auto simp: reaches_dispatch_def)
  with assms(3) have "dispatch lib env ''push'' payload = Inl (KeyError ''pusher'')"
    by (simp add: dispatch_def push_branch_def ebind_def)
  with github_webhook_raised[OF assms(1), of "KeyError ''pusher''"] assms(2)
  show ?thesis by simp
qed

text \<open>
  C2. A handled delivery with a required field missing has to be answered with
  HTTP 400 naming the field, and nothing stored. For the push payload
  \<open>{"repository": {"full_name": "o/r"}}\<close>, which has no \<open>pusher\<close>,
  \<open>github_webhook\<close> of run.py raises KeyError at line 90 and the client gets
  HTTP 500; \<open>handle_github_webhook\<close> of app/app.py catches the KeyError and
  answers 400 with the name. Neither stores a record.
\<close>

theorem push_without_pusher_is_500:
  "github_webhook lib open_env
       (webhook_request ''push'' (JObj [(''repository'', JObj [(''full_name'', JStr ''o/r'')])])) st
     = (Unhandled (KeyError ''pusher''), st)
   \<and> status_code (fst (github_webhook lib open_env
       (webhook_request ''push'' (JObj [(''repository'', JObj [(''full_name'', JStr ''o/r'')])])) st))
     = 500
   \<and> handle_github_webhook lib open_env
       (webhook_request ''push'' (JObj [(''repository'', JObj [(''full_name'', JStr ''o/r'')])])) st'
     = (Aborted 400 (''Missing expected field: '' @ sq @ ''pusher'' @ sq), st')"
  by (simp add: run_defs app_defs sample_defs)

subsection \<open>What a branch that extracts a record has read\<close>

lemma ebind_Inr_iff: "ebind m f = Inr y \<longleftrightarrow> (\<exists>x. m = Inr x \<and> f x = Inr y)"
  by (cases m) (simp_all add: ebind_def)

lemma dict_get_field:
  "dict_get v k d = Inr w \<Longrightarrow> w = (case field v k of None \<Rightarrow> d | Some x \<Rightarrow> x)"
  by (cases v) auto


lemma opened_branch_Inr:
  assumes "opened_branch lib env pr = Inr out"
  obtains a f t time where
    "at_path pr [''user'', ''login''] = Some a"
    "at_path pr [''head'', ''ref''] = Some f"
    "at_path pr [''base'', ''ref''] = Some t"
    "time_or_now lib env (field_or_null pr ''created_at'') = Inr time"
    "out = Extracted ''pull_request'' a f t time"
proof -
  from assms obtain u a h f b t ca time where
    s: "subscript pr ''user'' = Inr u" "subscript u ''login'' = Inr a"
       "subscript pr ''head'' = Inr h" "subscript h ''ref'' = Inr f"
       "subscript pr ''base'' = Inr b" "subscript b ''ref'' = Inr t"
       "dict_get pr ''created_at'' JNull = Inr ca"
       "time_or_now lib env ca = Inr time"
       "out = Extracted ''pull_request'' a f t time"
    unfolding opened_branch_def ebind_Inr_iff by blast
  from s(7) have "ca = field_or_null pr ''created_at''"
    by (auto dest: dict_get_field simp: field_or_null_def)
  with s show ?thesis
    by (intro that[of a f t time]) (simp_all add: subscript_Inr_iff)
qed

text \<open>The value \<open>payload.get("ref", "")\<close> of line 91.\<close>

lemma push_branch_Inr:
  assumes "push_branch lib env payload = Inr out"
  obtains a r time where
    "at_path payload [''pusher'', ''name''] = Some a"
    "(case field payload ''ref'' of None \<Rightarrow> JStr [] | Some v \<Rightarrow> v) = JStr r"
    "head_commit_time lib env
       (case field payload ''head_commit'' of None \<Rightarrow> JObj [] | Some v \<Rightarrow> v) = Inr time"
    "out = Extracted ''push'' a JNull
            (JStr (if startswith r ''refs/heads/'' then replace_first ''refs/heads/'' [] r else r))
            time"
proof -
  from assms obtain p a ref tb hd time where
    s: "subscript payload ''pusher'' = Inr p" "subscript p ''name'' = Inr a"
       "dict_get payload ''ref'' (JStr []) = Inr ref"
       "branch_of_ref ref = Inr tb"
       "out = Extracted ''push'' a JNull tb time"
       "dict_get payload ''head_commit'' (JObj []) = Inr hd"
       "head_commit_time lib env hd = Inr time"
    unfolding push_branch_def ebind_Inr_iff by blast
  from s(6) have hd: "hd = (case field payload ''head_commit'' of None \<Rightarrow> JObj [] | Some v \<Rightarrow> v)"
    by (auto dest: dict_get_field)
  from s(4) obtain r where r: "ref = JStr r"
    "tb = JStr (if startswith r ''refs/heads/'' then replace_first ''refs/heads/'' [] r else r)"
    by (cases ref) (auto simp: branch_of_ref_def)
  from s(3) r(1) have "(case field payload ''ref'' of None \<Rightarrow> JStr [] | Some v \<Rightarrow> v) = JStr r"
    by (auto dest: dict_get_field)
  with s r hd show ?thesis
    by (intro that[of a r time]) (simp_all add: subscript_Inr_iff)
qed

text \<open>What dispatch returns is decided by the header alone for a push and for
  an event that is neither a push nor a pull request.\<close>

lemma dispatch_push: "dispatch lib env ''push'' payload = push_branch lib env payload"
  by (simp add: dispatch_def)

lemma dispatch_other:
  "h \<noteq> ''push'' \<Longrightarrow> h \<noteq> ''pull_request'' \<Longrightarrow>
   dispatch lib env h payload = Inr (Ignored (''Ignored event type='' @ sq @ h @ sq))"
  by (simp add: dispatch_def)

lemma dispatch_pull_request:
  "dispatch lib env ''pull_request'' (JObj kvs) =
     (let pr_action = (case map_of kvs ''action'' of None \<Rightarrow> JStr [] | Some v \<Rightarrow> v);
          pr_data = (case map_of kvs ''pull_request'' of None \<Rightarrow> JObj [] | Some v \<Rightarrow> v)
      in if pr_action = JStr ''opened'' then opened_branch lib env pr_data
         else if pr_action = JStr ''closed''
         then ebind (dict_get pr_data ''merged'' JNull) (\<lambda>m.
                if eq_True m then merged_branch lib env pr_data
                else Inr (Ignored (''Ignored pull_request action='' @ sq @
                                    format_value lib pr_action @ sq)))
         else Inr (Ignored (''Ignored pull_request action='' @ sq @
                             format_value lib pr_action @ sq)))"
  by (simp add: dispatch_def ebind_def Let_def split: sum.splits)

subsection \<open>No branch of dispatch aborts: what it raises, Flask answers with 500\<close>

lemma ebind_Inl_iff: "ebind m f = Inl e \<longleftrightarrow> m = Inl e \<or> (\<exists>x. m = Inr x \<and> f x = Inl e)"
  by (cases m) (simp_all add: ebind_def)

lemma subscript_Inl: "subscript v k = Inl e \<Longrightarrow> status_code (flask_error e) = 500"
  by (cases v) (auto split: option.splits)

lemma dict_get_Inl: "dict_get v k d = Inl e \<Longrightarrow> status_code (flask_error e) = 500"
  by (cases v) auto

lemma parse_timestamp_Inl: "parse_timestamp lib x = Inl e \<Longrightarrow> status_code (flask_error e) = 500"
  by (cases x) (auto simp: parse_timestamp_def split: option.splits)

lemma time_or_now_Inl: "time_or_now lib env x = Inl e \<Longrightarrow> status_code (flask_error e) = 500"
  by (auto simp: time_or_now_def dest: parse_timestamp_Inl split: if_splits)

lemma merged_branch_Inl:
  "merged_branch lib env pr = Inl e \<Longrightarrow> status_code (flask_error e) = 500"
  unfolding merged_branch_def ebind_Inl_iff
  by (elim disjE exE conjE) (auto dest: subscript_Inl dict_get_Inl time_or_now_Inl)

lemma opened_branch_Inl:
  "opened_branch lib env pr = Inl e \<Longrightarrow> status_code (flask_error e) = 500"
  unfolding opened_branch_def ebind_Inl_iff
  by (elim disjE exE conjE) (auto dest: subscript_Inl dict_get_Inl time_or_now_Inl)

lemma branch_of_ref_Inl: "branch_of_ref ref = Inl e \<Longrightarrow> status_code (flask_error e) = 500"
  by (cases ref) (auto simp: branch_of_ref_def)

lemma head_commit_time_Inl:
  "head_commit_time lib env head = Inl e \<Longrightarrow> status_code (flask_error e) = 500"
  unfolding head_commit_time_def
  by (auto simp: ebind_Inl_iff dest: subscript_Inl dict_get_Inl parse_timestamp_Inl
      split: if_splits)

lemma push_branch_Inl:
  "push_branch lib env payload = Inl e \<Longrightarrow> status_code (flask_error e) = 500"
  unfolding push_branch_def ebind_Inl_iff
  by (elim disjE exE conjE)
     (auto dest: subscript_Inl dict_get_Inl branch_of_ref_Inl head_commit_time_Inl)

lemma dispatch_Inl:
  assumes "dispatch lib env h payload = Inl e"
  shows "status_code (flask_error e) = 500"
proof (cases "h = ''push''")
  case True
  with assms show ?thesis by (auto simp: dispatch_def dest: push_branch_Inl)
next
  case False
  with assms show ?thesis
    unfolding dispatch_def
    by (auto simp: ebind_Inl_iff dest: dict_get_Inl opened_branch_Inl merged_branch_Inl
        split: if_splits)
qed

lemma signature_gate_Inl:
  "signature_gate lib env request = Inl e \<Longrightarrow> status_code (flask_error e) \<in> {400, 500}"
  by (auto simp: signature_gate_def run_verify_contract split: if_splits option.splits)

text \<open>A response with status 201 comes from line 154 only.\<close>

lemma github_webhook_201:
  assumes "github_webhook lib env request st = (resp, st')"
    and "status_code resp = 201"
  obtains payload repo_full e a f t time where
    "reaches_dispatch lib env request payload repo_full"
    "dispatch lib env (event_header_of request) payload = Inr (Extracted e a f t time)"
    "required_fields e a t"
    "db_ok env"
    "resp = Jsonify (''Recorded '' @ e @ '' event'') 201"
    "st' = st\<lparr>docs := docs st @
                 [\<lparr>event_type = e, author = a, from_branch = f, to_branch = t,
                   timestamp = time, repo_full_name = repo_full,
                   raw_payload = take 16000 (json_dumps lib payload),
                   ev_id = next_id st, received_at = insert_time env\<rparr>],
               next_id := Suc (next_id st)\<rparr>"
proof (cases "signature_gate lib env request")
  case (Inl e)
  with assms signature_gate_Inl[OF Inl] show ?thesis
    by (auto simp: github_webhook_def github_webhook_body_def ebind_def)
next
  case gate: (Inr u)
  show ?thesis
  proof (cases "get_json request")
    case None
    with gate assms show ?thesis
      by (auto simp: github_webhook_def github_webhook_body_def ebind_def)
  next
    case (Some payload)
    show ?thesis
    proof (cases "repo_full_of payload")
      case (Inl e)
      then have "status_code (flask_error e) = 500"
        by (auto simp: repo_full_of_def ebind_Inl_iff dest: dict_get_Inl)
      with Inl gate Some assms show ?thesis
        by (auto simp: github_webhook_def github_webhook_body_def ebind_def)
    next
      case (Inr repo_full)
      then have rd: "reaches_dispatch lib env request payload repo_full"
        using gate Some by (simp add: reaches_dispatch_def)
      show ?thesis
      proof (cases "dispatch lib env (event_header_of request) payload")
        case (Inl e)
        with github_webhook_raised[OF rd Inl, of st] dispatch_Inl[OF Inl] assms
        show ?thesis by auto
      next
        case out: (Inr out)
        show ?thesis
        proof (cases out)
          case (Ignored msg)
          with github_webhook_ignored[OF rd, of msg st] out assms show ?thesis by auto
        next
          case (Extracted e a f t time)
          with github_webhook_extracted[OF rd, of e a f t time st] out assms
          have "required_fields e a t \<and> db_ok env \<and>
                resp = Jsonify (''Recorded '' @ e @ '' event'') 201 \<and>
                st' = st\<lparr>docs := docs st @
                 [\<lparr>event_type = e, author = a, from_branch = f, to_branch = t,
                   timestamp = time, repo_full_name = repo_full,
                   raw_payload = take 16000 (json_dumps lib payload),
                   ev_id = next_id st, received_at = insert_time env\<rparr>],
               next_id := Suc (next_id st)\<rparr>"
            by (auto split: if_splits)
          with that[OF rd] out Extracted show ?thesis by blast
        qed
      qed
    qed
  qed
qed

text \<open>Any other response leaves the store as it was.\<close>

lemma github_webhook_not_201:
  assumes "status_code (fst (github_webhook lib env request st)) \<noteq> 201"
  shows "snd (github_webhook lib env request st) = st"
  using assms
  by (auto simp: github_webhook_def github_webhook_body_def ebind_def GitHubEvent_save_def
      split: sum.splits option.splits outcome.splits if_splits)

subsection \<open>Reading the payload\<close>

lemma at_path2:
  "at_path v [k1, k2] = Some w \<longleftrightarrow> (\<exists>u. field v k1 = Some u \<and> field u k2 = Some w)"
  by (auto split: option.splits)

lemma field_Some_obj: "field v k = Some w \<Longrightarrow> \<exists>kvs. v = JObj kvs \<and> map_of kvs k = Some w"
  by (cases v) auto

lemma dispatch_merged:
  assumes "get_or (JObj kvs) ''action'' (JStr []) = JStr ''closed''"
    and "eq_True (field_or_null (get_or (JObj kvs) ''pull_request'' (JObj [])) ''merged'')"
  shows "dispatch lib env ''pull_request'' (JObj kvs)
           = merged_branch lib env (get_or (JObj kvs) ''pull_request'' (JObj []))"
proof -
  obtain fs where "get_or (JObj kvs) ''pull_request'' (JObj []) = JObj fs"
    using assms(2) by (cases "get_or (JObj kvs) ''pull_request'' (JObj [])")
      (simp_all add: field_or_null_def)
  with assms show ?thesis
    by (auto simp: dispatch_pull_request Let_def get_or_def field_or_null_def ebind_def)
qed

lemma dispatch_opened:
  assumes "get_or (JObj kvs) ''action'' (JStr []) = JStr ''opened''"
  shows "dispatch lib env ''pull_request'' (JObj kvs)
           = opened_branch lib env (get_or (JObj kvs) ''pull_request'' (JObj []))"
  using assms by (simp add: dispatch_pull_request Let_def get_or_def)

lemma dispatch_unhandled_action:
  assumes "a \<noteq> JStr ''opened''"
    and "a = JStr ''closed'' \<longrightarrow>
           (\<exists>fs. get_or (JObj kvs) ''pull_request'' (JObj []) = JObj fs
                 \<and> \<not> eq_True (field_or_null (JObj fs) ''merged''))"
    and "get_or (JObj kvs) ''action'' (JStr []) = a"
  shows "dispatch lib env ''pull_request'' (JObj kvs)
           = Inr (Ignored (''Ignored pull_request action='' @ sq @ format_value lib a @ sq))"
  using assms
  by (auto simp: dispatch_pull_request Let_def get_or_def field_or_null_def ebind_def)

text \<open>The push-only handler of app/app.py answers every delivery that is not a
  push, the one without the header among them, with HTTP 200 and its own
  message, and stores nothing.\<close>

lemma app_not_push_is_ignored:
  assumes "GITHUB_SECRET env = [] \<or> app_verify_github_signature lib env request = Inr ()"
    and "get_json request = Some payload"
    and "event_header_of request \<noteq> ''push''"
  shows "handle_github_webhook lib env request st
           = (Jsonify ''Ignored: not a push event'' 200, st)"
  using assms
  by (auto simp: handle_github_webhook_def handle_github_webhook_body_def ebind_def)

subsection \<open>A timestamp the parser rejects\<close>

text \<open>\<open>replace("Z", "+00:00")\<close> rewrites every \<open>Z\<close>, the trailing one among them.\<close>

lemma replace_from_append:
  "replace_from [c] new 0 (xs @ ys) = replace_from [c] new 0 xs @ replace_from [c] new 0 ys"
  by (induction xs) auto

lemma replace_all_trailing_Z:
  "replace_all ''Z'' ''+00:00'' (t @ ''Z'') = replace_all ''Z'' ''+00:00'' t @ ''+00:00''"
  by (simp add: replace_all_def replace_from_append)

lemma replace_all_no_Z:
  "CHR ''Z'' \<notin> set t \<Longrightarrow> replace_all ''Z'' ''+00:00'' t = t"
  unfolding replace_all_def by (induction t) auto

lemma parse_timestamp_malformed:
  "fromisoformat lib (replace_all ''Z'' ''+00:00'' s) = None \<Longrightarrow>
   parse_timestamp lib (JStr s) = Inl ValueError"
  by (simp add: parse_timestamp_def)

lemma time_or_now_malformed:
  "s \<noteq> [] \<Longrightarrow> fromisoformat lib (replace_all ''Z'' ''+00:00'' s) = None \<Longrightarrow>
   time_or_now lib env (JStr s) = Inl ValueError"
  by (simp add: time_or_now_def parse_timestamp_def)

lemma push_branch_malformed:
  assumes "at_path payload [''pusher'', ''name''] = Some a"
    and "get_or payload ''ref'' (JStr []) = JStr r"
    and "at_path payload [''head_commit'', ''timestamp''] = Some (JStr s)"
    and "s \<noteq> []"
    and "fromisoformat lib (replace_all ''Z'' ''+00:00'' s) = None"
  shows "push_branch lib env payload = Inl ValueError"
proof -
  from assms(1) obtain p where p: "subscript payload ''pusher'' = Inr p"
      "subscript p ''name'' = Inr a"
    by (auto simp: at_path2 subscript_Inr_iff simp del: at_path.simps)
  from assms(3) obtain h where h: "field payload ''head_commit'' = Some h"
      "field h ''timestamp'' = Some (JStr s)"
    by (auto simp: at_path2 simp del: at_path.simps)
  from h(1) obtain kvs where kvs: "payload = JObj kvs" "map_of kvs ''head_commit'' = Some h"
    by (auto dest: field_Some_obj)
  from h(2) obtain hs where hs: "h = JObj hs" "map_of hs ''timestamp'' = Some (JStr s)"
    by (auto dest: field_Some_obj)
  from hs have "hs \<noteq> []" by auto
  with hs assms(4,5) have t: "head_commit_time lib env h = Inl ValueError"
    by (simp add: head_commit_time_def ebind_def parse_timestamp_def)
  from assms(2) kvs have r: "dict_get payload ''ref'' (JStr []) = Inr (JStr r)"
    by (simp add: get_or_def)
  from kvs have d: "dict_get payload ''head_commit'' (JObj []) = Inr h"
    by simp
  show ?thesis
    unfolding push_branch_def by (simp add: p r d t ebind_def branch_of_ref_def)
qed

lemma opened_branch_malformed:
  assumes "at_path pr [''user'', ''login''] = Some a"
    and "at_path pr [''head'', ''ref''] = Some f"
    and "at_path pr [''base'', ''ref''] = Some b"
    and "field pr ''created_at'' = Some (JStr s)"
    and "s \<noteq> []"
    and "fromisoformat lib (replace_all ''Z'' ''+00:00'' s) = None"
  shows "opened_branch lib env pr = Inl ValueError"
proof -
  from assms(1) obtain u where u: "subscript pr ''user'' = Inr u" "subscript u ''login'' = Inr a"
    by (auto simp: at_path2 subscript_Inr_iff simp del: at_path.simps)
  from assms(2) obtain h where h: "subscript pr ''head'' = Inr h" "subscript h ''ref'' = Inr f"
    by (auto simp: at_path2 subscript_Inr_iff simp del: at_path.simps)
  from assms(3) obtain c where c: "subscript pr ''base'' = Inr c" "subscript c ''ref'' = Inr b"
    by (auto simp: at_path2 subscript_Inr_iff simp del: at_path.simps)
  from assms(4) have d: "dict_get pr ''created_at'' JNull = Inr (JStr s)"
    by (auto dest: field_Some_obj)
  show ?thesis
    unfolding opened_branch_def
    by (simp add: u h c d ebind_def time_or_now_malformed[OF assms(5,6)])
qed

lemma merged_branch_malformed:
  assumes "at_path pr [''merged_by'', ''login''] = Some a"
    and "at_path pr [''head'', ''ref''] = Some f"
    and "at_path pr [''base'', ''ref''] = Some b"
    and "field pr ''merged_at'' = Some (JStr s)"
    and "s \<noteq> []"
    and "fromisoformat lib (replace_all ''Z'' ''+00:00'' s) = None"
  shows "merged_branch lib env pr = Inl ValueError"
proof -
  from assms(1) obtain u where u: "subscript pr ''merged_by'' = Inr u"
      "subscript u ''login'' = Inr a"
    by (auto simp: at_path2 subscript_Inr_iff simp del: at_path.simps)
  from assms(2) obtain h where h: "subscript pr ''head'' = Inr h" "subscript h ''ref'' = Inr f"
    by (auto simp: at_path2 subscript_Inr_iff simp del: at_path.simps)
  from assms(3) obtain c where c: "subscript pr ''base'' = Inr c" "subscript c ''ref'' = Inr b"
    by (auto simp: at_path2 subscript_Inr_iff simp del: at_path.simps)
  from assms(4) have d: "dict_get pr ''merged_at'' JNull = Inr (JStr s)"
    by (auto dest: field_Some_obj)
  show ?thesis
    unfolding merged_branch_def
    by (simp add: u h c d ebind_def time_or_now_malformed[OF assms(5,6)])
qed

subsection \<open>What a delivery with its fields in place stores\<close>

lemma at_path_obj: "at_path v (k # ks) = Some w \<Longrightarrow> \<exists>kvs. v = JObj kvs"
  by (cases v) auto

lemma dict_get_obj:
  "\<exists>kvs. v = JObj kvs \<Longrightarrow> dict_get v k d = Inr (get_or v k d)"
  by (auto simp: get_or_def)

lemma merged_branch_reads:
  assumes "at_path pr [''merged_by'', ''login''] = Some a"
    and "at_path pr [''head'', ''ref''] = Some f"
    and "at_path pr [''base'', ''ref''] = Some t"
    and "time_or_now lib env (field_or_null pr ''merged_at'') = Inr time"
  shows "merged_branch lib env pr = Inr (Extracted ''merge'' a f t time)"
proof -
  from assms(1) obtain u where u: "subscript pr ''merged_by'' = Inr u"
      "subscript u ''login'' = Inr a"
    by (auto simp: at_path2 subscript_Inr_iff simp del: at_path.simps)
  from assms(2) obtain h where h: "subscript pr ''head'' = Inr h" "subscript h ''ref'' = Inr f"
    by (auto simp: at_path2 subscript_Inr_iff simp del: at_path.simps)
  from assms(3) obtain c where c: "subscript pr ''base'' = Inr c" "subscript c ''ref'' = Inr t"
    by (auto simp: at_path2 subscript_Inr_iff simp del: at_path.simps)
  from at_path_obj[OF assms(1)]
  have d: "dict_get pr ''merged_at'' JNull = Inr (field_or_null pr ''merged_at'')"
    by (auto simp: field_or_null_def)
  show ?thesis
    unfolding merged_branch_def by (simp add: u h c d assms(4) ebind_def)
qed

lemma opened_branch_reads:
  assumes "at_path pr [''user'', ''login''] = Some a"
    and "at_path pr [''head'', ''ref''] = Some f"
    and "at_path pr [''base'', ''ref''] = Some t"
    and "time_or_now lib env (field_or_null pr ''created_at'') = Inr time"
  shows "opened_branch lib env pr = Inr (Extracted ''pull_request'' a f t time)"
proof -
  from assms(1) obtain u where u: "subscript pr ''user'' = Inr u"
      "subscript u ''login'' = Inr a"
    by (auto simp: at_path2 subscript_Inr_iff simp del: at_path.simps)
  from assms(2) obtain h where h: "subscript pr ''head'' = Inr h" "subscript h ''ref'' = Inr f"
    by (auto simp: at_path2 subscript_Inr_iff simp del: at_path.simps)
  from assms(3) obtain c where c: "subscript pr ''base'' = Inr c" "subscript c ''ref'' = Inr t"
    by (auto simp: at_path2 subscript_Inr_iff simp del: at_path.simps)
  from at_path_obj[OF assms(1)]
  have d: "dict_get pr ''created_at'' JNull = Inr (field_or_null pr ''created_at'')"
    by (auto simp: field_or_null_def)
  show ?thesis
    unfolding opened_branch_def by (simp add: u h c d assms(4) ebind_def)
qed

lemma strip_prefix_drop:
  "(if startswith r ''refs/heads/'' then replace_first ''refs/heads/'' [] r else r)
     = (if startswith r ''refs/heads/'' then drop (length ''refs/heads/'') r else r)"
  using replace_first_prefix[of "''refs/heads/''" "[]"]
  by (auto simp: startswith_iff simp del: replace_first.simps)

lemma push_branch_reads:
  assumes "at_path payload [''pusher'', ''name''] = Some a"
    and "get_or payload ''ref'' (JStr []) = JStr r"
    and "head_commit_time lib env (get_or payload ''head_commit'' (JObj [])) = Inr time"
  shows "push_branch lib env payload
           = Inr (Extracted ''push'' a JNull
                    (JStr (if startswith r ''refs/heads/''
                           then drop (length ''refs/heads/'') r else r)) time)"
proof -
  from assms(1) obtain p where p: "subscript payload ''pusher'' = Inr p"
      "subscript p ''name'' = Inr a"
    by (auto simp: at_path2 subscript_Inr_iff simp del: at_path.simps)
  from assms(1) have obj: "\<exists>kvs. payload = JObj kvs" by (rule at_path_obj)
  have r: "dict_get payload ''ref'' (JStr []) = Inr (JStr r)"
    using dict_get_obj[OF obj] assms(2) by simp
  have d: "dict_get payload ''head_commit'' (JObj [])
             = Inr (get_or payload ''head_commit'' (JObj []))"
    using dict_get_obj[OF obj] by simp
  have b: "branch_of_ref (JStr r)
             = Inr (JStr (if startswith r ''refs/heads/''
                          then drop (length ''refs/heads/'') r else r))"
    unfolding branch_of_ref_def using strip_prefix_drop[of r] by simp
  show ?thesis
    unfolding push_branch_def by (simp add: p r d b assms(3) ebind_def)
qed

text \<open>Line 96: no head commit, or one without a timestamp or with an empty one,
  gives the time of the handling.\<close>

lemma head_commit_time_none:
  "field payload ''head_commit'' = None \<Longrightarrow>
   head_commit_time lib env (get_or payload ''head_commit'' (JObj [])) = Inr (utcnow env)"
  by (simp add: get_or_def head_commit_time_def)

lemma head_commit_time_falsy:
  assumes "field payload ''head_commit'' = Some (JObj hs)"
    and "\<not> truthy (field_or_null (JObj hs) ''timestamp'')"
  shows "head_commit_time lib env (get_or payload ''head_commit'' (JObj [])) = Inr (utcnow env)"
  using assms by (simp add: get_or_def head_commit_time_def field_or_null_def ebind_def)

lemma head_commit_time_parsed:
  assumes "at_path payload [''head_commit'', ''timestamp''] = Some x"
    and "truthy x"
  shows "head_commit_time lib env (get_or payload ''head_commit'' (JObj []))
           = parse_timestamp lib x"
proof -
  from assms(1) obtain h where h: "field payload ''head_commit'' = Some h"
      "field h ''timestamp'' = Some x"
    by (auto simp: at_path2 simp del: at_path.simps)
  from h(2) obtain hs where hs: "h = JObj hs" "map_of hs ''timestamp'' = Some x"
    by (auto dest: field_Some_obj)
  from hs have "hs \<noteq> []" by auto
  with h hs assms(2) show ?thesis
    by (simp add: get_or_def head_commit_time_def ebind_def)
qed

text \<open>The three deliveries that are stored, once lines 67 to 78 are passed.\<close>

lemma push_recorded:
  assumes "reaches_dispatch lib env request payload repo_full"
    and "event_header_of request = ''push''"
    and "at_path payload [''pusher'', ''name''] = Some a"
    and "get_or payload ''ref'' (JStr []) = JStr r"
    and "head_commit_time lib env (get_or payload ''head_commit'' (JObj [])) = Inr time"
    and "truthy a"
    and "(if startswith r ''refs/heads/'' then drop (length ''refs/heads/'') r else r) \<noteq> []"
    and "db_ok env"
  shows "github_webhook lib env request st =
     (Jsonify ''Recorded push event'' 201,
      st\<lparr>docs := docs st @
            [\<lparr>event_type = ''push'', author = a, from_branch = JNull,
              to_branch = JStr (if startswith r ''refs/heads/''
                                then drop (length ''refs/heads/'') r else r),
              timestamp = time, repo_full_name = repo_full,
              raw_payload = take 16000 (json_dumps lib payload),
              ev_id = next_id st, received_at = insert_time env\<rparr>],
          next_id := Suc (next_id st)\<rparr>)"
proof -
  have "dispatch lib env (event_header_of request) payload
          = Inr (Extracted ''push'' a JNull
                   (JStr (if startswith r ''refs/heads/''
                          then drop (length ''refs/heads/'') r else r)) time)"
    using push_branch_reads[OF assms(3,4,5)] assms(2) by (simp add: dispatch_push)
  from github_webhook_extracted[OF assms(1) this, of st] assms(6,7,8)
  show ?thesis by (simp add: required_fields_def)
qed

lemma opened_recorded:
  assumes "reaches_dispatch lib env request payload repo_full"
    and "event_header_of request = ''pull_request''"
    and "get_or payload ''action'' (JStr []) = JStr ''opened''"
    and "get_or payload ''pull_request'' (JObj []) = pr"
    and "at_path pr [''user'', ''login''] = Some a"
    and "at_path pr [''head'', ''ref''] = Some f"
    and "at_path pr [''base'', ''ref''] = Some t"
    and "time_or_now lib env (field_or_null pr ''created_at'') = Inr time"
    and "truthy a" and "truthy t" and "db_ok env"
  shows "github_webhook lib env request st =
     (Jsonify ''Recorded pull_request event'' 201,
      st\<lparr>docs := docs st @
            [\<lparr>event_type = ''pull_request'', author = a, from_branch = f, to_branch = t,
              timestamp = time, repo_full_name = repo_full,
              raw_payload = take 16000 (json_dumps lib payload),
              ev_id = next_id st, received_at = insert_time env\<rparr>],
          next_id := Suc (next_id st)\<rparr>)"
proof -
  obtain kvs where kvs: "payload = JObj kvs"
    using assms(1) repo_full_of_obj by (auto simp: reaches_dispatch_def)
  have "dispatch lib env (event_header_of request) payload
          = Inr (Extracted ''pull_request'' a f t time)"
    using opened_branch_reads[OF assms(5,6,7,8)] dispatch_opened[of kvs lib env] assms(2,3,4) kvs
    by simp
  from github_webhook_extracted[OF assms(1) this, of st] assms(9,10,11)
  show ?thesis by (simp add: required_fields_def)
qed

lemma merged_recorded:
  assumes "reaches_dispatch lib env request payload repo_full"
    and "event_header_of request = ''pull_request''"
    and "get_or payload ''action'' (JStr []) = JStr ''closed''"
    and "get_or payload ''pull_request'' (JObj []) = pr"
    and "eq_True (field_or_null pr ''merged'')"
    and "at_path pr [''merged_by'', ''login''] = Some a"
    and "at_path pr [''head'', ''ref''] = Some f"
    and "at_path pr [''base'', ''ref''] = Some t"
    and "time_or_now lib env (field_or_null pr ''merged_at'') = Inr time"
    and "truthy a" and "truthy t" and "db_ok env"
  shows "github_webhook lib env request st =
     (Jsonify ''Recorded merge event'' 201,
      st\<lparr>docs := docs st @
            [\<lparr>event_type = ''merge'', author = a, from_branch = f, to_branch = t,
              timestamp = time, repo_full_name = repo_full,
              raw_payload = take 16000 (json_dumps lib payload),
              ev_id = next_id st, received_at = insert_time env\<rparr>],
          next_id := Suc (next_id st)\<rparr>)"
proof -
  obtain kvs where kvs: "payload = JObj kvs"
    using assms(1) repo_full_of_obj by (auto simp: reaches_dispatch_def)
  have "dispatch lib env (event_header_of request) payload
          = Inr (Extracted ''merge'' a f t time)"
    using merged_branch_reads[OF assms(6,7,8,9)] dispatch_merged[of kvs lib env]
      assms(2,3,4,5) kvs
    by simp
  from github_webhook_extracted[OF assms(1) this, of st] assms(10,11,12)
  show ?thesis by (simp add: required_fields_def)
qed

subsection \<open>C3: the branch of a push\<close>

text \<open>Whenever \<open>github_webhook\<close> of run.py accepts a push, the record added has
  \<open>ref\<close> without a leading \<open>refs/heads/\<close> as target branch, \<open>ref\<close> itself when it
  does not start with the prefix, and no source branch.\<close>

lemma accepted_push_branch:
  assumes "event_header_of request = ''push''"
    and "github_webhook lib env request st = (resp, st')"
    and "status_code resp = 201"
  shows "\<exists>payload r d.
           get_json request = Some payload
         \<and> get_or payload ''ref'' (JStr []) = JStr r
         \<and> docs st' = docs st @ [d]
         \<and> event_type d = ''push''
         \<and> from_branch d = JNull
         \<and> to_branch d = JStr (if startswith r ''refs/heads/''
                               then drop (length ''refs/heads/'') r else r)"
proof -
  from assms(2,3) obtain payload repo_full e a f t time where
    rd: "reaches_dispatch lib env request payload repo_full"
    and d: "dispatch lib env (event_header_of request) payload = Inr (Extracted e a f t time)"
    and st': "st' = st\<lparr>docs := docs st @
                 [\<lparr>event_type = e, author = a, from_branch = f, to_branch = t,
                   timestamp = time, repo_full_name = repo_full,
                   raw_payload = take 16000 (json_dumps lib payload),
                   ev_id = next_id st, received_at = insert_time env\<rparr>],
               next_id := Suc (next_id st)\<rparr>"
    by (rule github_webhook_201)
  from d assms(1) have "push_branch lib env payload = Inr (Extracted e a f t time)"
    by (simp add: dispatch_push)
  then obtain r where
    r: "(case field payload ''ref'' of None \<Rightarrow> JStr [] | Some v \<Rightarrow> v) = JStr r"
    and out: "Extracted e a f t time = Extracted ''push'' a JNull
            (JStr (if startswith r ''refs/heads/'' then replace_first ''refs/heads/'' [] r else r))
            time"
    by (rule push_branch_Inr) auto
  have "startswith r ''refs/heads/'' \<Longrightarrow>
          replace_first ''refs/heads/'' [] r = drop (length ''refs/heads/'') r"
    using replace_first_prefix[of "''refs/heads/''" "[]"]
    by (auto simp: startswith_iff simp del: replace_first.simps)
  with out have t: "t = JStr (if startswith r ''refs/heads/''
                               then drop (length ''refs/heads/'') r else r)"
    and e: "e = ''push''" and f: "f = JNull"
    by auto
  from rd have "get_json request = Some payload" by (simp add: reaches_dispatch_def)
  with r st' t e f show ?thesis
    by (intro exI[of _ payload] exI[of _ r]) (simp add: get_or_def)
qed

text \<open>
  app/app.py stores the field \<open>branch\<close> instead, computed at line 84 by
  \<open>ref.replace("refs/heads/", "", 1)\<close> with no test of the prefix. The two agree
  on a \<open>ref\<close> that starts with the prefix and on one that does not contain it.
\<close>

lemma replace_first_absent:
  "\<forall>a b. r \<noteq> a @ p @ b \<Longrightarrow> p \<noteq> [] \<Longrightarrow> replace_first p new r = r"
proof (induction r)
  case Nil
  show ?case by simp
next
  case (Cons c cs)
  have "\<not> startswith (c # cs) p"
    using Cons.prems(1)[rule_format, of "[]"] by (auto simp: startswith_iff)
  moreover have "\<forall>a b. cs \<noteq> a @ p @ b"
    using Cons.prems(1)[rule_format, of "c # _"] by auto
  ultimately show ?case using Cons.IH Cons.prems(2) by simp
qed

lemma app_branch_agrees:
  "startswith r ''refs/heads/'' \<or> (\<forall>a b. r \<noteq> a @ ''refs/heads/'' @ b) \<Longrightarrow>
   replace_first ''refs/heads/'' [] r
     = (if startswith r ''refs/heads/'' then drop (length ''refs/heads/'') r else r)"
  using replace_first_prefix[of "''refs/heads/''" "[]"] replace_first_absent[of r "''refs/heads/''" "[]"]
  by (auto simp: startswith_iff simp del: replace_first.simps)

lemma app_branch_inner_prefix:
  "replace_first ''refs/heads/'' [] ''refs/tags/refs/heads/x'' = ''refs/tags/x''"
  by simp

text \<open>A \<open>ref\<close> without the prefix is stored as it is by run.py.\<close>

lemma push_without_prefix_recorded:
  "github_webhook lib open_env (webhook_request ''push'' plain_ref_push) empty_store
     = (Jsonify ''Recorded push event'' 201,
        \<lparr>docs = [\<lparr>event_type = ''push'', author = JStr ''alice'', from_branch = JNull,
                   to_branch = JStr ''main'', timestamp = 1749000000,
                   repo_full_name = JStr ''o/r'',
                   raw_payload = take 16000 (json_dumps lib plain_ref_push),
                   ev_id = 0, received_at = 1749000001\<rparr>],
         next_id = 1\<rparr>)"
  by (simp add: run_defs sample_defs)

text \<open>
  C3. The branch stored for a push is \<open>ref\<close> without a leading \<open>refs/heads/\<close>,
  and \<open>ref\<close> itself when it does not start with that prefix. For the push of the
  tag \<open>refs/heads/x\<close>, whose \<open>ref\<close> is \<open>refs/tags/refs/heads/x\<close>,
  \<open>handle_github_webhook\<close> of app/app.py removes the first occurrence of the
  prefix wherever it stands (line 84 has no \<open>startswith\<close>) and stores the branch
  \<open>refs/tags/x\<close>; \<open>github_webhook\<close> of run.py tests the prefix first (line 92)
  and stores \<open>ref\<close> unchanged, with no source branch.
\<close>

theorem push_ref_with_inner_prefix:
  "fst (handle_github_webhook lib open_env (webhook_request ''push'' tag_push) empty_store)
     = Jsonify ''Push event recorded'' 201
   \<and> map branch (docs (snd (handle_github_webhook lib open_env
                               (webhook_request ''push'' tag_push) empty_store)))
     = [''refs/tags/x'']
   \<and> fst (github_webhook lib open_env (webhook_request ''push'' tag_push) empty_store)
     = Jsonify ''Recorded push event'' 201
   \<and> map to_branch (docs (snd (github_webhook lib open_env
                                  (webhook_request ''push'' tag_push) empty_store)))
     = [JStr ''refs/tags/refs/heads/x'']
   \<and> map from_branch (docs (snd (github_webhook lib open_env
                                    (webhook_request ''push'' tag_push) empty_store)))
     = [JNull]"
  by (simp add: run_defs app_defs sample_defs)

subsection \<open>C4: a merged pull request\<close>



subsection \<open>Deliveries that are ignored\<close>

text \<open>Line 78 succeeds on an object whose \<open>repository\<close> is missing or an object.\<close>

lemma reaches_dispatch_object:
  assumes "signature_gate lib env request = Inr ()"
    and "get_json request = Some (JObj kvs)"
    and "map_of kvs ''repository'' = None \<or> (\<exists>fs. map_of kvs ''repository'' = Some (JObj fs))"
  shows "\<exists>repo_full. reaches_dispatch lib env request (JObj kvs) repo_full"
  using assms by (auto simp: reaches_dispatch_def repo_full_of_def ebind_def)

subsection \<open>C5: ignored events\<close>

text \<open>
  C5 as the specification states it: every delivery whose event header is
  neither \<open>push\<close> nor \<open>pull_request\<close>, and every pull request with an action that
  is not handled, is answered with HTTP 200 and the exact reason. An \<open>issues\<close>
  delivery without a signature, with a secret configured, is answered with
  HTTP 400 by the signature gate. With no secret, an \<open>issues\<close> delivery whose body
  is the JSON array \<open>[]\<close> raises AttributeError at line 78 of run.py, and a
  pull request \<open>closed\<close> whose \<open>pull_request\<close> is null raises it at line 118:
  HTTP 500. And \<open>handle_github_webhook\<close> of app/app.py answers the \<open>issues\<close>
  delivery with a reason of its own.
\<close>

theorem ignored_event_not_always_200:
  "github_webhook sample_lib secret_env (webhook_request ''issues'' (JObj [])) empty_store
     = (Aborted 400 ''Missing X-Hub-Signature-256 header'', empty_store)
   \<and> github_webhook sample_lib open_env (webhook_request ''issues'' (JArr [])) empty_store
     = (Unhandled AttributeError, empty_store)
   \<and> status_code (fst (github_webhook sample_lib open_env
                         (webhook_request ''issues'' (JArr [])) empty_store)) = 500
   \<and> github_webhook sample_lib open_env
        (webhook_request ''pull_request''
           (JObj [(''action'', JStr ''closed''), (''pull_request'', JNull)])) empty_store
     = (Unhandled AttributeError, empty_store)
   \<and> handle_github_webhook sample_lib open_env (webhook_request ''issues'' (JObj []))
        empty_store
     = (Jsonify ''Ignored: not a push event'' 200, empty_store)
   \<and> ''Ignored: not a push event'' \<noteq> ''Ignored event type='' @ sq @ ''issues'' @ sq"
  by (simp add: run_defs app_defs sample_defs)

text \<open>
  C5, amended. Of the deliveries that pass the signature gate and whose body is a
  JSON object with \<open>repository\<close> missing or an object, \<open>github_webhook\<close> of run.py
  answers with HTTP 200 and the reason \<open>Ignored event type='<header>'\<close> every one
  whose event header is neither \<open>push\<close> nor \<open>pull_request\<close>, and with HTTP 200 and
  the reason \<open>Ignored pull_request action='<action>'\<close> every pull request whose
  action (the empty string when missing) is not \<open>opened\<close> and, if it is \<open>closed\<close>,
  whose \<open>pull_request\<close> is missing or an object with \<open>merged\<close> not true; the store
  is left as it was. \<open>handle_github_webhook\<close> of app/app.py answers every delivery
  that passes its signature gate, has a JSON body and is not a push with
  HTTP 200 and the reason \<open>Ignored: not a push event\<close>, and leaves the store as it
  was.
\<close>

theorem unhandled_events_are_ignored:
  "(signature_gate lib env request = Inr ()
      \<and> get_json request = Some (JObj kvs)
      \<and> (map_of kvs ''repository'' = None \<or> (\<exists>fs. map_of kvs ''repository'' = Some (JObj fs)))
      \<and> event_header_of request \<noteq> ''push'' \<and> event_header_of request \<noteq> ''pull_request''
      \<longrightarrow> github_webhook lib env request st
            = (Jsonify (''Ignored event type='' @ sq @ event_header_of request @ sq) 200, st))
   \<and> (signature_gate lib env request = Inr ()
      \<and> get_json request = Some (JObj kvs)
      \<and> (map_of kvs ''repository'' = None \<or> (\<exists>fs. map_of kvs ''repository'' = Some (JObj fs)))
      \<and> event_header_of request = ''pull_request''
      \<and> get_or (JObj kvs) ''action'' (JStr []) = a \<and> a \<noteq> JStr ''opened''
      \<and> (a = JStr ''closed'' \<longrightarrow>
           (\<exists>fs. get_or (JObj kvs) ''pull_request'' (JObj []) = JObj fs
                 \<and> \<not> eq_True (field_or_null (JObj fs) ''merged'')))
      \<longrightarrow> github_webhook lib env request st
            = (Jsonify (''Ignored pull_request action='' @ sq @ format_value lib a @ sq) 200,
               st))
   \<and> ((GITHUB_SECRET env = [] \<or> app_verify_github_signature lib env request = Inr ())
      \<and> get_json request = Some payload
      \<and> event_header_of request \<noteq> ''push''
      \<longrightarrow> handle_github_webhook lib env request st'
            = (Jsonify ''Ignored: not a push event'' 200, st'))"
proof (intro conjI impI)
  assume a: "signature_gate lib env request = Inr ()
      \<and> get_json request = Some (JObj kvs)
      \<and> (map_of kvs ''repository'' = None \<or> (\<exists>fs. map_of kvs ''repository'' = Some (JObj fs)))
      \<and> event_header_of request \<noteq> ''push'' \<and> event_header_of request \<noteq> ''pull_request''"
  then obtain repo_full where rd: "reaches_dispatch lib env request (JObj kvs) repo_full"
    using reaches_dispatch_object[of lib env request kvs] by blast
  from a have "dispatch lib env (event_header_of request) (JObj kvs)
      = Inr (Ignored (''Ignored event type='' @ sq @ event_header_of request @ sq))"
    by (simp add: dispatch_other)
  from github_webhook_ignored[OF rd this]
  show "github_webhook lib env request st
      = (Jsonify (''Ignored event type='' @ sq @ event_header_of request @ sq) 200, st)" .
next
  assume a: "signature_gate lib env request = Inr ()
      \<and> get_json request = Some (JObj kvs)
      \<and> (map_of kvs ''repository'' = None \<or> (\<exists>fs. map_of kvs ''repository'' = Some (JObj fs)))
      \<and> event_header_of request = ''pull_request''
      \<and> get_or (JObj kvs) ''action'' (JStr []) = a \<and> a \<noteq> JStr ''opened''
      \<and> (a = JStr ''closed'' \<longrightarrow>
           (\<exists>fs. get_or (JObj kvs) ''pull_request'' (JObj []) = JObj fs
                 \<and> \<not> eq_True (field_or_null (JObj fs) ''merged'')))"
  then obtain repo_full where rd: "reaches_dispatch lib env request (JObj kvs) repo_full"
    using reaches_dispatch_object[of lib env request kvs] by blast
  from a have "dispatch lib env ''pull_request'' (JObj kvs)
      = Inr (Ignored (''Ignored pull_request action='' @ sq @ format_value lib a @ sq))"
    by (intro dispatch_unhandled_action) simp_all
  with github_webhook_ignored[OF rd, of _ st] a
  show "github_webhook lib env request st
      = (Jsonify (''Ignored pull_request action='' @ sq @ format_value lib a @ sq) 200, st)"
    by simp
next
  assume "(GITHUB_SECRET env = [] \<or> app_verify_github_signature lib env request = Inr ())
      \<and> get_json request = Some payload
      \<and> event_header_of request \<noteq> ''push''"
  then show "handle_github_webhook lib env request st'
            = (Jsonify ''Ignored: not a push event'' 200, st')"
    by (intro app_not_push_is_ignored) simp_all
qed

theorem unhandled_events_are_ignored_witness:
  "github_webhook sample_lib open_env (webhook_request ''issues'' (JObj [])) empty_store
     = (Jsonify (''Ignored event type='' @ sq @ ''issues'' @ sq) 200, empty_store)
   \<and> github_webhook sample_lib open_env
       (webhook_request ''pull_request''
          (JObj [(''action'', JStr ''closed''),
                 (''pull_request'', JObj [(''merged'', JBool False)])])) empty_store
     = (Jsonify (''Ignored pull_request action='' @ sq @ ''closed'' @ sq) 200, empty_store)
   \<and> handle_github_webhook sample_lib open_env (webhook_request ''issues'' (JArr []))
        empty_store
     = (Jsonify ''Ignored: not a push event'' 200, empty_store)"
  using unhandled_events_are_ignored[of sample_lib open_env
      "webhook_request ''issues'' (JObj [])" "[]" empty_store JNull "JObj []" empty_store]
    unhandled_events_are_ignored[of sample_lib open_env
      "webhook_request ''pull_request''
          (JObj [(''action'', JStr ''closed''),
                 (''pull_request'', JObj [(''merged'', JBool False)])])"
      "[(''action'', JStr ''closed''),
        (''pull_request'', JObj [(''merged'', JBool False)])]"
      empty_store "JStr ''closed''"
      "JObj [(''action'', JStr ''closed''),
             (''pull_request'', JObj [(''merged'', JBool False)])]" empty_store]
    unhandled_events_are_ignored[of sample_lib open_env
      "webhook_request ''issues'' (JArr [])" "[]" empty_store JNull "JArr []" empty_store]
  by (simp add: signature_gate_def event_header_of_def get_or_def field_or_null_def
      format_value_def sample_defs)

subsection \<open>C10: no event header\<close>

text \<open>
  C10 as stated: a delivery without the header \<open>X-GitHub-Event\<close> is answered
  with HTTP 200 and the reason \<open>Ignored event type=''\<close>. With a secret configured
  and no signature it is answered with HTTP 400 by the signature gate. With no
  secret and the JSON array \<open>[]\<close> as body, line 78 of run.py raises
  AttributeError: HTTP 500. And \<open>handle_github_webhook\<close> of app/app.py answers it
  with a reason of its own.
\<close>

theorem missing_event_header_not_always_ignored:
  "github_webhook sample_lib secret_env (bare_request (JObj [])) empty_store
     = (Aborted 400 ''Missing X-Hub-Signature-256 header'', empty_store)
   \<and> github_webhook sample_lib open_env (bare_request (JArr [])) empty_store
     = (Unhandled AttributeError, empty_store)
   \<and> status_code (fst (github_webhook sample_lib open_env (bare_request (JArr []))
                         empty_store)) = 500
   \<and> handle_github_webhook sample_lib open_env (bare_request (JObj [])) empty_store
     = (Jsonify ''Ignored: not a push event'' 200, empty_store)
   \<and> ''Ignored: not a push event'' \<noteq> ''Ignored event type='' @ sq @ sq"
  by (simp add: run_defs app_defs sample_defs)

text \<open>
  C10, amended. A delivery without the header \<open>X-GitHub-Event\<close> that passes the
  signature gate is handled with the empty string as its event type. When its
  body is a JSON object with \<open>repository\<close> missing or an object,
  \<open>github_webhook\<close> of run.py answers with HTTP 200 and the reason
  \<open>Ignored event type=''\<close>; when its body is any JSON value,
  \<open>handle_github_webhook\<close> of app/app.py answers with HTTP 200 and the reason
  \<open>Ignored: not a push event\<close>. Both leave the store as it was.
\<close>

theorem missing_event_header_is_ignored:
  "(map_of (headers request) ''X-GitHub-Event'' = None
      \<and> signature_gate lib env request = Inr ()
      \<and> get_json request = Some (JObj kvs)
      \<and> (map_of kvs ''repository'' = None \<or> (\<exists>fs. map_of kvs ''repository'' = Some (JObj fs)))
      \<longrightarrow> event_header_of request = []
        \<and> github_webhook lib env request st
            = (Jsonify (''Ignored event type='' @ sq @ sq) 200, st))
   \<and> (map_of (headers request) ''X-GitHub-Event'' = None
      \<and> (GITHUB_SECRET env = [] \<or> app_verify_github_signature lib env request = Inr ())
      \<and> get_json request = Some payload
      \<longrightarrow> handle_github_webhook lib env request st'
            = (Jsonify ''Ignored: not a push event'' 200, st'))"
proof (intro conjI impI)
  assume a: "map_of (headers request) ''X-GitHub-Event'' = None
      \<and> signature_gate lib env request = Inr ()
      \<and> get_json request = Some (JObj kvs)
      \<and> (map_of kvs ''repository'' = None \<or> (\<exists>fs. map_of kvs ''repository'' = Some (JObj fs)))"
  then show h: "event_header_of request = []"
    by (simp add: event_header_of_def)
  from a obtain repo_full where rd: "reaches_dispatch lib env request (JObj kvs) repo_full"
    using reaches_dispatch_object[of lib env request kvs] by blast
  have "dispatch lib env [] (JObj kvs)
          = Inr (Ignored (''Ignored event type='' @ sq @ [] @ sq))"
    by (rule dispatch_other) simp_all
  with github_webhook_ignored[OF rd, of "''Ignored event type='' @ sq @ sq" st] h
  show "github_webhook lib env request st
          = (Jsonify (''Ignored event type='' @ sq @ sq) 200, st)"
    by simp
next
  assume a: "map_of (headers request) ''X-GitHub-Event'' = None
      \<and> (GITHUB_SECRET env = [] \<or> app_verify_github_signature lib env request = Inr ())
      \<and> get_json request = Some payload"
  then have "event_header_of request \<noteq> ''push''"
    by (simp add: event_header_of_def)
  with a show "handle_github_webhook lib env request st'
            = (Jsonify ''Ignored: not a push event'' 200, st')"
    by (intro app_not_push_is_ignored) simp_all
qed

theorem missing_event_header_is_ignored_witness:
  "github_webhook sample_lib open_env (bare_request (JObj [])) empty_store
     = (Jsonify (''Ignored event type='' @ [CHR 0x27, CHR 0x27]) 200, empty_store)
   \<and> handle_github_webhook sample_lib open_env (bare_request (JArr [])) empty_store
     = (Jsonify ''Ignored: not a push event'' 200, empty_store)"
  using missing_event_header_is_ignored[of "bare_request (JObj [])" sample_lib open_env
      "[]" empty_store "JObj []" empty_store]
    missing_event_header_is_ignored[of "bare_request (JArr [])" sample_lib open_env
      "[]" empty_store "JArr []" empty_store]
  by (simp add: signature_gate_def sample_defs sq_def)

subsection \<open>C6: what a stored record holds\<close>

lemma truthy_not_null: "truthy v \<Longrightarrow> v \<noteq> JNull \<and> v \<noteq> JStr []"
  by (cases v) auto

text \<open>One delivery keeps a property of the stored records that the test of
  line 135 implies.\<close>

lemma github_webhook_keeps:
  assumes "\<forall>d\<in>set (docs st). event_type d \<noteq> [] \<and> truthy (author d) \<and> truthy (to_branch d)"
  shows "\<forall>d\<in>set (docs (snd (github_webhook lib env request st))).
           event_type d \<noteq> [] \<and> truthy (author d) \<and> truthy (to_branch d)"
proof (cases "status_code (fst (github_webhook lib env request st)) = 201")
  case False
  then show ?thesis using assms by (simp add: github_webhook_not_201)
next
  case True
  obtain resp st' where r: "github_webhook lib env request st = (resp, st')"
    by (cases "github_webhook lib env request st")
  with True have "status_code resp = 201" by simp
  with r obtain payload repo_full e a f t time where
    "required_fields e a t"
    "st' = st\<lparr>docs := docs st @
                 [\<lparr>event_type = e, author = a, from_branch = f, to_branch = t,
                   timestamp = time, repo_full_name = repo_full,
                   raw_payload = take 16000 (json_dumps lib payload),
                   ev_id = next_id st, received_at = insert_time env\<rparr>],
               next_id := Suc (next_id st)\<rparr>"
    by (rule github_webhook_201)
  with assms r show ?thesis by (auto simp: required_fields_def)
qed

lemma deliveries_keep:
  "\<forall>d\<in>set (docs st). event_type d \<noteq> [] \<and> truthy (author d) \<and> truthy (to_branch d) \<Longrightarrow>
   \<forall>d\<in>set (docs (deliveries lib rs st)).
      event_type d \<noteq> [] \<and> truthy (author d) \<and> truthy (to_branch d)"
proof (induction rs arbitrary: st)
  case Nil
  then show ?case by simp
next
  case (Cons r rs)
  obtain env request where r: "r = (env, request)" by (cases r)
  from github_webhook_keeps[OF Cons.prems, of lib env request]
  show ?case unfolding r deliveries.simps by (rule Cons.IH)
qed

text \<open>
  C6. Starting from a store whose records pass the test of line 135, after any
  sequence of deliveries to \<open>github_webhook\<close> of run.py every stored record has
  a non-empty event type, and an author and a target branch that are neither
  null nor the empty string (its timestamp is a datetime by its type). And a
  delivery whose extracted fields fail the test is answered with HTTP 400 and the
  store is left as it was: \<open>save\<close> is not reached.
\<close>

theorem stored_records_have_required_fields:
  "((\<forall>d\<in>set (docs st). event_type d \<noteq> [] \<and> truthy (author d) \<and> truthy (to_branch d))
      \<longrightarrow> (\<forall>d\<in>set (docs (deliveries lib rs st)).
             event_type d \<noteq> []
           \<and> author d \<noteq> JNull \<and> author d \<noteq> JStr []
           \<and> to_branch d \<noteq> JNull \<and> to_branch d \<noteq> JStr []))
   \<and> (reaches_dispatch lib env request payload repo_full
      \<and> dispatch lib env (event_header_of request) payload = Inr (Extracted e a f t time)
      \<and> \<not> required_fields e a t
      \<longrightarrow> github_webhook lib env request st
            = (Aborted 400 ''Missing required fields from payload'', st))"
proof (intro conjI impI)
  assume "\<forall>d\<in>set (docs st). event_type d \<noteq> [] \<and> truthy (author d) \<and> truthy (to_branch d)"
  from deliveries_keep[OF this, of lib rs]
  show "\<forall>d\<in>set (docs (deliveries lib rs st)).
             event_type d \<noteq> []
           \<and> author d \<noteq> JNull \<and> author d \<noteq> JStr []
           \<and> to_branch d \<noteq> JNull \<and> to_branch d \<noteq> JStr []"
    by (auto dest: truthy_not_null)
next
  assume "reaches_dispatch lib env request payload repo_full
      \<and> dispatch lib env (event_header_of request) payload = Inr (Extracted e a f t time)
      \<and> \<not> required_fields e a t"
  then show "github_webhook lib env request st
            = (Aborted 400 ''Missing required fields from payload'', st)"
    using github_webhook_extracted[of lib env request payload repo_full e a f t time st]
    by simp
qed

theorem stored_records_have_required_fields_witness:
  "(\<exists>d. docs (deliveries sample_lib
                [(open_env, webhook_request ''push'' empty_author_payload),
                 (open_env, webhook_request ''push'' push_payload)] empty_store) = [d]
        \<and> event_type d = ''push'' \<and> author d = JStr ''alice'' \<and> to_branch d = JStr ''main'')
   \<and> github_webhook sample_lib open_env (webhook_request ''push'' empty_author_payload)
        empty_store
      = (Aborted 400 ''Missing required fields from payload'', empty_store)"
  using stored_records_have_required_fields[of empty_store sample_lib
      "[(open_env, webhook_request ''push'' empty_author_payload),
        (open_env, webhook_request ''push'' push_payload)]"
      open_env "webhook_request ''push'' empty_author_payload" empty_author_payload
      "JStr ''o/r''" "''push''" "JStr []" JNull "JStr ''main''" 1749000000]
  by (simp add: run_defs sample_defs reaches_dispatch_def empty_author_payload_def)

subsection \<open>C9: what save adds\<close>

lemma reaches_dispatch_insert_time:
  "reaches_dispatch lib (env\<lparr>insert_time := t\<rparr>) request payload repo_full
     = reaches_dispatch lib env request payload repo_full"
  by (simp add: reaches_dispatch_def signature_gate_def run_verify_github_signature_def
      split: option.splits prod.splits)

lemma time_or_now_insert_time:
  "time_or_now lib (env\<lparr>insert_time := t\<rparr>) x = time_or_now lib env x"
  by (simp add: time_or_now_def)

lemma head_commit_time_insert_time:
  "head_commit_time lib (env\<lparr>insert_time := t\<rparr>) head = head_commit_time lib env head"
  by (simp add: head_commit_time_def cong: if_cong)

lemma dispatch_insert_time:
  "dispatch lib (env\<lparr>insert_time := t\<rparr>) h payload = dispatch lib env h payload"
  by (simp add: dispatch_def push_branch_def opened_branch_def merged_branch_def
      time_or_now_insert_time head_commit_time_insert_time cong: if_cong)

text \<open>
  C9. Whenever \<open>github_webhook\<close> of run.py accepts a delivery (HTTP 201) on a
  store whose identifiers are all below its counter, exactly one record was
  added; its identifier is the one of no record stored before, and the
  identifiers stay below the counter; its \<open>received_at\<close> is the time of the
  insertion; and another time of insertion changes \<open>received_at\<close> and nothing
  else: not the response, not the \<open>timestamp\<close> of the record.
\<close>

theorem accepted_delivery_saves_one_record:
  assumes "github_webhook lib env request st = (resp, st')"
    and "status_code resp = 201"
    and "\<forall>d\<in>set (docs st). ev_id d < next_id st"
  shows "\<exists>d. docs st' = docs st @ [d]
            \<and> ev_id d \<notin> ev_id ` set (docs st)
            \<and> (\<forall>d'\<in>set (docs st'). ev_id d' < next_id st')
            \<and> received_at d = insert_time env
            \<and> (\<forall>t. github_webhook lib (env\<lparr>insert_time := t\<rparr>) request st
                     = (resp, st'\<lparr>docs := docs st @ [d\<lparr>received_at := t\<rparr>]\<rparr>))"
proof -
  from assms(1,2) obtain payload repo_full e a f t time where
    rd: "reaches_dispatch lib env request payload repo_full"
    and d: "dispatch lib env (event_header_of request) payload = Inr (Extracted e a f t time)"
    and ok: "required_fields e a t" "db_ok env"
    and resp: "resp = Jsonify (''Recorded '' @ e @ '' event'') 201"
    and st': "st' = st\<lparr>docs := docs st @
                 [\<lparr>event_type = e, author = a, from_branch = f, to_branch = t,
                   timestamp = time, repo_full_name = repo_full,
                   raw_payload = take 16000 (json_dumps lib payload),
                   ev_id = next_id st, received_at = insert_time env\<rparr>],
               next_id := Suc (next_id st)\<rparr>"
    by (rule github_webhook_201)
  let ?d = "\<lparr>event_type = e, author = a, from_branch = f, to_branch = t,
             timestamp = time, repo_full_name = repo_full,
             raw_payload = take 16000 (json_dumps lib payload),
             ev_id = next_id st, received_at = insert_time env\<rparr>"
  have other: "github_webhook lib (env\<lparr>insert_time := u\<rparr>) request st
                 = (resp, st'\<lparr>docs := docs st @ [?d\<lparr>received_at := u\<rparr>]\<rparr>)" for u
    using github_webhook_extracted[of lib "env\<lparr>insert_time := u\<rparr>" request payload
        repo_full e a f t time st] rd d ok resp st'
    by (simp add: reaches_dispatch_insert_time dispatch_insert_time)
  have fresh: "ev_id ?d \<notin> ev_id ` set (docs st)"
    using assms(3) by auto
  have below: "\<forall>d'\<in>set (docs st'). ev_id d' < next_id st'"
    using assms(3) st' by (auto simp: less_Suc_eq)
  show ?thesis
    using st' fresh below other by (intro exI[of _ ?d]) simp
qed

theorem accepted_delivery_saves_one_record_witness:
  "\<exists>d. docs (snd (github_webhook sample_lib open_env (webhook_request ''push'' push_payload)
                    empty_store)) = [d]
       \<and> ev_id d = 0 \<and> received_at d = 1749000001 \<and> timestamp d = 1748961000"
  using accepted_delivery_saves_one_record[of sample_lib open_env
      "webhook_request ''push'' push_payload" empty_store
      "fst (github_webhook sample_lib open_env (webhook_request ''push'' push_payload)
              empty_store)"
      "snd (github_webhook sample_lib open_env (webhook_request ''push'' push_payload)
              empty_store)"]
  by (simp add: run_defs sample_defs)

text \<open>Over a run that starts with the empty store no two records share an
  identifier.\<close>

lemma github_webhook_ids:
  assumes "\<forall>d\<in>set (docs st). ev_id d < next_id st" "distinct (map ev_id (docs st))"
  shows "(\<forall>d\<in>set (docs (snd (github_webhook lib env request st))).
            ev_id d < next_id (snd (github_webhook lib env request st)))
         \<and> distinct (map ev_id (docs (snd (github_webhook lib env request st))))"
proof (cases "status_code (fst (github_webhook lib env request st)) = 201")
  case False
  then show ?thesis using assms by (simp add: github_webhook_not_201)
next
  case True
  obtain resp st' where r: "github_webhook lib env request st = (resp, st')"
    by (cases "github_webhook lib env request st")
  with True have "status_code resp = 201" by simp
  with r obtain payload repo_full e a f t time where
    "st' = st\<lparr>docs := docs st @
                 [\<lparr>event_type = e, author = a, from_branch = f, to_branch = t,
                   timestamp = time, repo_full_name = repo_full,
                   raw_payload = take 16000 (json_dumps lib payload),
                   ev_id = next_id st, received_at = insert_time env\<rparr>],
               next_id := Suc (next_id st)\<rparr>"
    by (rule github_webhook_201)
  with assms r show ?thesis by (auto simp: less_Suc_eq)
qed

lemma deliveries_ids:
  "\<forall>d\<in>set (docs st). ev_id d < next_id st \<Longrightarrow> distinct (map ev_id (docs st)) \<Longrightarrow>
   distinct (map ev_id (docs (deliveries lib rs st)))"
proof (induction rs arbitrary: st)
  case Nil
  then show ?case by simp
next
  case (Cons r rs)
  obtain env request where r: "r = (env, request)" by (cases r)
  from github_webhook_ids[OF Cons.prems, of lib env request]
  show ?case unfolding r deliveries.simps by (intro Cons.IH) simp_all
qed

lemma deliveries_ids_distinct:
  "distinct (map ev_id (docs (deliveries lib rs empty_store)))"
  by (rule deliveries_ids) (simp_all add: empty_store_def)

subsection \<open>C8: the list of events\<close>

text \<open>\<open>list_events\<close> of run.py never fails, and falls back to 20.\<close>

lemma run_limit_default:
  "map_of (args request) ''limit'' = None \<Longrightarrow> run_limit lib request = 20"
  "map_of (args request) ''limit'' = Some s \<Longrightarrow> int_of_str lib s = None
     \<Longrightarrow> run_limit lib request = 20"
  "map_of (args request) ''limit'' = Some s \<Longrightarrow> int_of_str lib s = Some n
     \<Longrightarrow> run_limit lib request = n"
  by (simp_all add: run_limit_def)

lemma run_list_events_status: "list_status (run_list_events lib request st) = 200"
  by (simp add: run_list_events_def list_status_def)

text \<open>The documents come sorted by timestamp, latest first, and a positive
  limit keeps the first \<open>limit\<close> of them.\<close>

lemma sorted_rev_uminus: "sorted (map uminus xs) \<Longrightarrow> sorted (rev xs)" for xs :: "int list"
  by (induction xs) (auto simp: sorted_append)

lemma order_by_desc_sorted:
  "sorted (rev (map key (order_by_desc key ds)))"
proof -
  have "sorted (map (\<lambda>d. - key d) (order_by_desc key ds))"
    unfolding order_by_desc_def by (rule sorted_sort_key)
  then have "sorted (map uminus (map key (order_by_desc key ds)))"
    by (simp add: comp_def)
  then show ?thesis by (rule sorted_rev_uminus)
qed

lemma order_by_desc_mset: "mset (order_by_desc key ds) = mset ds"
  by (simp add: order_by_desc_def)

text \<open>The records of the answer: a prefix of the stored records sorted by
  timestamp, latest first, so none left out is later than one returned.\<close>

lemma run_list_events_most_recent:
  assumes "run_limit lib request = n" and "0 < n"
  shows "\<exists>out rest.
           run_list_events lib request st = Inr (map event_dict out, 200)
         \<and> length out = min (nat n) (length (docs st))
         \<and> mset (out @ rest) = mset (docs st)
         \<and> sorted (rev (map timestamp (out @ rest)))"
proof -
  let ?s = "order_by_desc timestamp (docs st)"
  have "length ?s = length (docs st)"
    using order_by_desc_mset[of timestamp "docs st"] by (metis size_mset)
  with assms show ?thesis
    by (intro exI[of _ "take (nat n) ?s"] exI[of _ "drop (nat n) ?s"])
       (simp add: run_list_events_def limit_docs_def order_by_desc_mset order_by_desc_sorted)
qed

text \<open>
  C8. A limit that is not a number has to fall back to 20. For
  \<open>GET /events?limit=abc\<close>, \<open>list_events\<close> of app/app.py calls \<open>int\<close> on the
  parameter outside any \<open>try\<close>: the ValueError is caught nowhere and the client
  gets HTTP 500. \<open>list_events\<close> of run.py catches it, takes 20 and answers 200.
\<close>

theorem list_events_non_numeric_limit:
  "app_list_events sample_lib (list_request [(''limit'', ''abc'')]) st = Inl ValueError
   \<and> list_status (app_list_events sample_lib (list_request [(''limit'', ''abc'')]) st) = 500
   \<and> run_limit sample_lib (list_request [(''limit'', ''abc'')]) = 20
   \<and> list_status (run_list_events sample_lib (list_request [(''limit'', ''abc'')]) st') = 200"
  by (simp add: app_list_events_def app_limit_def run_limit_def run_list_events_def
      list_status_def ebind_def sample_defs)

text \<open>The same for every library and every parameter \<open>int\<close> rejects.\<close>

lemma app_list_events_non_numeric:
  "map_of (args request) ''limit'' = Some s \<Longrightarrow> int_of_str lib s = None \<Longrightarrow>
   app_list_events lib request st = Inl ValueError"
  by (simp add: app_list_events_def app_limit_def ebind_def)

subsection \<open>C7: timestamps\<close>

text \<open>In app/app.py the timestamp of every commit is parsed, the empty string
  too, and the ValueError passes the handler of KeyError.\<close>

lemma commit_doc_malformed:
  assumes "field c ''id'' = Some i" and "field c ''message'' = Some m"
    and "field c ''timestamp'' = Some (JStr s)"
    and "fromisoformat lib (replace_all ''Z'' ''+00:00'' s) = None"
  shows "commit_doc lib c = Inl ValueError"
  using assms
  by (simp add: commit_doc_def subscript_Inr_iff[THEN iffD2] ebind_def parse_timestamp_def)

lemma commit_docs_raises:
  "commit_docs lib pre = Inr ds \<Longrightarrow> commit_doc lib c = Inl e \<Longrightarrow>
   commit_docs lib (pre @ c # rest) = Inl e"
proof (induction pre arbitrary: ds)
  case Nil
  then show ?case by (simp add: ebind_def)
next
  case (Cons p pre)
  from Cons.prems(1) obtain d ds' where "commit_doc lib p = Inr d" "commit_docs lib pre = Inr ds'"
    by (auto simp: ebind_Inr_iff)
  with Cons.IH[OF _ Cons.prems(2)] show ?case by (simp add: ebind_def)
qed

lemma app_malformed_commit_time:
  assumes "GITHUB_SECRET env = [] \<or> app_verify_github_signature lib env request = Inr ()"
    and "get_json request = Some payload"
    and "event_header_of request = ''push''"
    and "at_path payload [''repository'', ''full_name''] = Some rn"
    and "at_path payload [''pusher'', ''name''] = Some pn"
    and "at_path payload [''pusher'', ''email''] = Some pe"
    and "field payload ''ref'' = Some (JStr r)"
    and "field payload ''commits'' = Some (JArr (pre @ c # rest))"
    and "commit_docs lib pre = Inr ds"
    and "field c ''id'' = Some i" and "field c ''message'' = Some m"
    and "field c ''timestamp'' = Some (JStr s)"
    and "fromisoformat lib (replace_all ''Z'' ''+00:00'' s) = None"
  shows "handle_github_webhook lib env request st = (Unhandled ValueError, st)"
proof -
  from assms(4) obtain rp where rp: "subscript payload ''repository'' = Inr rp"
      "subscript rp ''full_name'' = Inr rn"
    by (auto simp: at_path2 subscript_Inr_iff simp del: at_path.simps)
  from assms(5) obtain p where p: "subscript payload ''pusher'' = Inr p"
      "subscript p ''name'' = Inr pn"
    by (auto simp: at_path2 subscript_Inr_iff simp del: at_path.simps)
  from assms(6) p(1) have pe: "subscript p ''email'' = Inr pe"
    by (auto simp: at_path2 subscript_Inr_iff simp del: at_path.simps)
  from assms(7) have r: "subscript payload ''ref'' = Inr (JStr r)"
    by (simp add: subscript_Inr_iff)
  from assms(8) have cs: "dict_get payload ''commits'' (JArr []) = Inr (JArr (pre @ c # rest))"
    by (auto dest: field_Some_obj)
  have bad: "commit_docs lib (pre @ c # rest) = Inl ValueError"
    using commit_docs_raises[OF assms(9) commit_doc_malformed[OF assms(10,11,12,13)]] .
  have "push_try_block lib env payload st = Inl ValueError"
    unfolding push_try_block_def by (simp add: rp p pe r cs bad ebind_def)
  with assms(1,2,3) show ?thesis
    by (auto simp: handle_github_webhook_def handle_github_webhook_body_def ebind_def)
qed

text \<open>The three places where run.py reads a timestamp: what a string there
  leads to, empty or rejected by the parser.\<close>

lemma time_or_now_empty: "time_or_now lib env (JStr []) = Inr (utcnow env)"
  by (simp add: time_or_now_def)

lemma push_timestamp_string:
  assumes "reaches_dispatch lib env request payload repo_full"
    and "event_header_of request = ''push''"
    and "at_path payload [''pusher'', ''name''] = Some a"
    and "get_or payload ''ref'' (JStr []) = JStr r"
    and "at_path payload [''head_commit'', ''timestamp''] = Some (JStr s)"
  shows "if s = []
         then truthy a
              \<and> (if startswith r ''refs/heads/'' then drop (length ''refs/heads/'') r else r) \<noteq> []
              \<and> db_ok env
            \<longrightarrow> (\<exists>d. github_webhook lib env request st
                        = (Jsonify ''Recorded push event'' 201,
                           st\<lparr>docs := docs st @ [d], next_id := Suc (next_id st)\<rparr>)
                     \<and> timestamp d = utcnow env)
         else fromisoformat lib (replace_all ''Z'' ''+00:00'' s) = None
            \<longrightarrow> github_webhook lib env request st = (Unhandled ValueError, st)
              \<and> status_code (fst (github_webhook lib env request st)) = 500"
proof (cases "s = []")
  case True
  from assms(5) obtain hs where hs: "field payload ''head_commit'' = Some (JObj hs)"
      "map_of hs ''timestamp'' = Some (JStr s)"
    by (auto simp: at_path2 simp del: at_path.simps dest!: field_Some_obj)
  with True have "head_commit_time lib env (get_or payload ''head_commit'' (JObj []))
                    = Inr (utcnow env)"
    by (intro head_commit_time_falsy[of payload hs]) (simp_all add: field_or_null_def)
  from push_recorded[OF assms(1,2,3,4) this, of st] True show ?thesis by auto
next
  case False
  have "push_branch lib env payload = Inl ValueError"
    if "fromisoformat lib (replace_all ''Z'' ''+00:00'' s) = None"
    using push_branch_malformed[OF assms(3,4,5) False that] .
  with github_webhook_raised[OF assms(1), of ValueError st] assms(2) False
  show ?thesis by (simp add: dispatch_push)
qed

lemma opened_timestamp_string:
  assumes "reaches_dispatch lib env request payload repo_full"
    and "event_header_of request = ''pull_request''"
    and "get_or payload ''action'' (JStr []) = JStr ''opened''"
    and "get_or payload ''pull_request'' (JObj []) = pr"
    and "at_path pr [''user'', ''login''] = Some a"
    and "at_path pr [''head'', ''ref''] = Some f"
    and "at_path pr [''base'', ''ref''] = Some t"
    and "field pr ''created_at'' = Some (JStr s)"
  shows "if s = []
         then truthy a \<and> truthy t \<and> db_ok env
            \<longrightarrow> (\<exists>d. github_webhook lib env request st
                        = (Jsonify ''Recorded pull_request event'' 201,
                           st\<lparr>docs := docs st @ [d], next_id := Suc (next_id st)\<rparr>)
                     \<and> timestamp d = utcnow env)
         else fromisoformat lib (replace_all ''Z'' ''+00:00'' s) = None
            \<longrightarrow> github_webhook lib env request st = (Unhandled ValueError, st)
              \<and> status_code (fst (github_webhook lib env request st)) = 500"
proof (cases "s = []")
  case True
  with assms(8) have "time_or_now lib env (field_or_null pr ''created_at'') = Inr (utcnow env)"
    by (simp add: field_or_null_def time_or_now_empty)
  from opened_recorded[OF assms(1,2,3,4,5,6,7) this, of st] True show ?thesis by auto
next
  case False
  obtain kvs where kvs: "payload = JObj kvs"
    using assms(1) repo_full_of_obj by (auto simp: reaches_dispatch_def)
  have "dispatch lib env (event_header_of request) payload = Inl ValueError"
    if "fromisoformat lib (replace_all ''Z'' ''+00:00'' s) = None"
    using opened_branch_malformed[OF assms(5,6,7,8) False that, of env]
      dispatch_opened[of kvs lib env] assms(2,3,4) kvs by simp
  with github_webhook_raised[OF assms(1), of ValueError st] False
  show ?thesis by simp
qed

lemma merged_timestamp_string:
  assumes "reaches_dispatch lib env request payload repo_full"
    and "event_header_of request = ''pull_request''"
    and "get_or payload ''action'' (JStr []) = JStr ''closed''"
    and "get_or payload ''pull_request'' (JObj []) = pr"
    and "eq_True (field_or_null pr ''merged'')"
    and "at_path pr [''merged_by'', ''login''] = Some a"
    and "at_path pr [''head'', ''ref''] = Some f"
    and "at_path pr [''base'', ''ref''] = Some t"
    and "field pr ''merged_at'' = Some (JStr s)"
  shows "if s = []
         then truthy a \<and> truthy t \<and> db_ok env
            \<longrightarrow> (\<exists>d. github_webhook lib env request st
                        = (Jsonify ''Recorded merge event'' 201,
                           st\<lparr>docs := docs st @ [d], next_id := Suc (next_id st)\<rparr>)
                     \<and> timestamp d = utcnow env)
         else fromisoformat lib (replace_all ''Z'' ''+00:00'' s) = None
            \<longrightarrow> github_webhook lib env request st = (Unhandled ValueError, st)
              \<and> status_code (fst (github_webhook lib env request st)) = 500"
proof (cases "s = []")
  case True
  with assms(9) have "time_or_now lib env (field_or_null pr ''merged_at'') = Inr (utcnow env)"
    by (simp add: field_or_null_def time_or_now_empty)
  from merged_recorded[OF assms(1,2,3,4,5,6,7,8) this, of st] True show ?thesis by auto
next
  case False
  obtain kvs where kvs: "payload = JObj kvs"
    using assms(1) repo_full_of_obj by (auto simp: reaches_dispatch_def)
  have "dispatch lib env (event_header_of request) payload = Inl ValueError"
    if "fromisoformat lib (replace_all ''Z'' ''+00:00'' s) = None"
    using merged_branch_malformed[OF assms(6,7,8,9) False that, of env]
      dispatch_merged[of kvs lib env] assms(2,3,4,5) kvs by simp
  with github_webhook_raised[OF assms(1), of ValueError st] False
  show ?thesis by simp
qed

text \<open>
  C7 as the specification states it: a timestamp that is not ISO-8601 is
  answered with HTTP 400 and never replaced by the time of the handling. For the
  push of section 8 with \<open>yesterday\<close> as the timestamp of the head commit and of
  its commit, \<open>datetime.fromisoformat\<close> raises ValueError in both handlers,
  nothing catches it (app/app.py catches KeyError only) and the client gets
  HTTP 500. And with the empty string, which the parser rejects as well, as the
  timestamp of the head commit, line 96 of run.py takes the other branch: the
  push is stored with the time of the handling and answered with HTTP 201.
\<close>

theorem malformed_timestamp_is_500:
  "github_webhook sample_lib open_env (webhook_request ''push'' bad_time_push) empty_store
     = (Unhandled ValueError, empty_store)
   \<and> status_code (fst (github_webhook sample_lib open_env
                         (webhook_request ''push'' bad_time_push) empty_store)) \<noteq> 400
   \<and> handle_github_webhook sample_lib open_env (webhook_request ''push'' bad_time_push)
        empty_store
     = (Unhandled ValueError, empty_store)
   \<and> status_code (fst (handle_github_webhook sample_lib open_env
                         (webhook_request ''push'' bad_time_push) empty_store)) \<noteq> 400
   \<and> fromisoformat sample_lib (replace_all ''Z'' ''+00:00'' []) = None
   \<and> fst (github_webhook sample_lib open_env (webhook_request ''push'' empty_time_push)
            empty_store)
     = Jsonify ''Recorded push event'' 201
   \<and> map timestamp (docs (snd (github_webhook sample_lib open_env
                                  (webhook_request ''push'' empty_time_push) empty_store)))
     = [utcnow open_env]"
  by (simp add: run_defs app_defs sample_defs)

text \<open>
  C7, amended. A timestamp string with a trailing \<open>Z\<close> is parsed as the string
  with \<open>+00:00\<close> in its place. In \<open>github_webhook\<close> of run.py, take a delivery
  that passed lines 67 to 78 (the signature gate, the parsing of the body, the
  read of the repository name) and whose fields read before the timestamp are in
  the payload: \<open>pusher.name\<close>, with \<open>ref\<close> a string or missing, for a push;
  \<open>user.login\<close> or \<open>merged_by.login\<close>, \<open>head.ref\<close> and \<open>base.ref\<close> for a pull
  request opened or merged. If its timestamp (\<open>head_commit.timestamp\<close>,
  \<open>created_at\<close>, \<open>merged_at\<close>) is a string that is not empty and that
  \<open>datetime.fromisoformat\<close> rejects after the replacement, the delivery ends in
  an unhandled ValueError, HTTP 500, with the store left as it was. If it is the
  empty string, it counts as no timestamp: when author and target branch are
  true in Python's sense and the database takes the write, the record is stored
  with the time of the handling, HTTP 201. In \<open>handle_github_webhook\<close> of
  app/app.py, take a push that passed the signature gate with a JSON body that
  has \<open>repository.full_name\<close>, \<open>pusher.name\<close>, \<open>pusher.email\<close>, a string \<open>ref\<close>
  and a list of commits: a commit with \<open>id\<close> and \<open>message\<close> whose timestamp is a
  string the parser rejects after the replacement, the empty string too, after
  commits that all convert, ends the delivery in an unhandled ValueError,
  HTTP 500, with the store left as it was.
\<close>

theorem malformed_timestamp_is_unhandled:
  "parse_timestamp lib (JStr (z @ ''Z''))
       = (case fromisoformat lib (replace_all ''Z'' ''+00:00'' z @ ''+00:00'') of
            None \<Rightarrow> Inl ValueError | Some x \<Rightarrow> Inr x)
   \<and> (reaches_dispatch lib env request payload repo_full
        \<and> event_header_of request = ''push''
        \<and> at_path payload [''pusher'', ''name''] = Some a
        \<and> get_or payload ''ref'' (JStr []) = JStr r
        \<and> at_path payload [''head_commit'', ''timestamp''] = Some (JStr s)
        \<longrightarrow> (if s = []
             then truthy a
                  \<and> (if startswith r ''refs/heads/''
                      then drop (length ''refs/heads/'') r else r) \<noteq> []
                  \<and> db_ok env
                \<longrightarrow> (\<exists>d. github_webhook lib env request st
                            = (Jsonify ''Recorded push event'' 201,
                               st\<lparr>docs := docs st @ [d], next_id := Suc (next_id st)\<rparr>)
                         \<and> timestamp d = utcnow env)
             else fromisoformat lib (replace_all ''Z'' ''+00:00'' s) = None
                \<longrightarrow> github_webhook lib env request st = (Unhandled ValueError, st)
                  \<and> status_code (fst (github_webhook lib env request st)) = 500))
   \<and> (reaches_dispatch lib env request payload repo_full
        \<and> event_header_of request = ''pull_request''
        \<and> get_or payload ''action'' (JStr []) = JStr ''opened''
        \<and> get_or payload ''pull_request'' (JObj []) = pr
        \<and> at_path pr [''user'', ''login''] = Some a
        \<and> at_path pr [''head'', ''ref''] = Some f
        \<and> at_path pr [''base'', ''ref''] = Some t
        \<and> field pr ''created_at'' = Some (JStr s)
        \<longrightarrow> (if s = []
             then truthy a \<and> truthy t \<and> db_ok env
                \<longrightarrow> (\<exists>d. github_webhook lib env request st
                            = (Jsonify ''Recorded pull_request event'' 201,
                               st\<lparr>docs := docs st @ [d], next_id := Suc (next_id st)\<rparr>)
                         \<and> timestamp d = utcnow env)
             else fromisoformat lib (replace_all ''Z'' ''+00:00'' s) = None
                \<longrightarrow> github_webhook lib env request st = (Unhandled ValueError, st)
                  \<and> status_code (fst (github_webhook lib env request st)) = 500))
   \<and> (reaches_dispatch lib env request payload repo_full
        \<and> event_header_of request = ''pull_request''
        \<and> get_or payload ''action'' (JStr []) = JStr ''closed''
        \<and> get_or payload ''pull_request'' (JObj []) = pr
        \<and> eq_True (field_or_null pr ''merged'')
        \<and> at_path pr [''merged_by'', ''login''] = Some a
        \<and> at_path pr [''head'', ''ref''] = Some f
        \<and> at_path pr [''base'', ''ref''] = Some t
        \<and> field pr ''merged_at'' = Some (JStr s)
        \<longrightarrow> (if s = []
             then truthy a \<and> truthy t \<and> db_ok env
                \<longrightarrow> (\<exists>d. github_webhook lib env request st
                            = (Jsonify ''Recorded merge event'' 201,
                               st\<lparr>docs := docs st @ [d], next_id := Suc (next_id st)\<rparr>)
                         \<and> timestamp d = utcnow env)
             else fromisoformat lib (replace_all ''Z'' ''+00:00'' s) = None
                \<longrightarrow> github_webhook lib env request st = (Unhandled ValueError, st)
                  \<and> status_code (fst (github_webhook lib env request st)) = 500))
   \<and> ((GITHUB_SECRET env = [] \<or> app_verify_github_signature lib env request = Inr ())
        \<and> get_json request = Some payload
        \<and> event_header_of request = ''push''
        \<and> at_path payload [''repository'', ''full_name''] = Some rn
        \<and> at_path payload [''pusher'', ''name''] = Some a
        \<and> at_path payload [''pusher'', ''email''] = Some pe
        \<and> field payload ''ref'' = Some (JStr r)
        \<and> field payload ''commits'' = Some (JArr (pre @ c # rest))
        \<and> commit_docs lib pre = Inr ds
        \<and> field c ''id'' = Some i \<and> field c ''message'' = Some m
        \<and> field c ''timestamp'' = Some (JStr s)
        \<and> fromisoformat lib (replace_all ''Z'' ''+00:00'' s) = None
        \<longrightarrow> handle_github_webhook lib env request st' = (Unhandled ValueError, st')
          \<and> status_code (fst (handle_github_webhook lib env request st')) = 500)"
proof (intro conjI impI)
  show "parse_timestamp lib (JStr (z @ ''Z''))
       = (case fromisoformat lib (replace_all ''Z'' ''+00:00'' z @ ''+00:00'') of
            None \<Rightarrow> Inl ValueError | Some x \<Rightarrow> Inr x)"
    by (simp add: parse_timestamp_def replace_all_trailing_Z)
next
  assume "reaches_dispatch lib env request payload repo_full
        \<and> event_header_of request = ''push''
        \<and> at_path payload [''pusher'', ''name''] = Some a
        \<and> get_or payload ''ref'' (JStr []) = JStr r
        \<and> at_path payload [''head_commit'', ''timestamp''] = Some (JStr s)"
  then show "if s = []
             then truthy a
                  \<and> (if startswith r ''refs/heads/''
                      then drop (length ''refs/heads/'') r else r) \<noteq> []
                  \<and> db_ok env
                \<longrightarrow> (\<exists>d. github_webhook lib env request st
                            = (Jsonify ''Recorded push event'' 201,
                               st\<lparr>docs := docs st @ [d], next_id := Suc (next_id st)\<rparr>)
                         \<and> timestamp d = utcnow env)
             else fromisoformat lib (replace_all ''Z'' ''+00:00'' s) = None
                \<longrightarrow> github_webhook lib env request st = (Unhandled ValueError, st)
                  \<and> status_code (fst (github_webhook lib env request st)) = 500"
    by (intro push_timestamp_string[where payload = payload and repo_full = repo_full]) simp_all
next
  assume "reaches_dispatch lib env request payload repo_full
        \<and> event_header_of request = ''pull_request''
        \<and> get_or payload ''action'' (JStr []) = JStr ''opened''
        \<and> get_or payload ''pull_request'' (JObj []) = pr
        \<and> at_path pr [''user'', ''login''] = Some a
        \<and> at_path pr [''head'', ''ref''] = Some f
        \<and> at_path pr [''base'', ''ref''] = Some t
        \<and> field pr ''created_at'' = Some (JStr s)"
  then show "if s = []
             then truthy a \<and> truthy t \<and> db_ok env
                \<longrightarrow> (\<exists>d. github_webhook lib env request st
                            = (Jsonify ''Recorded pull_request event'' 201,
                               st\<lparr>docs := docs st @ [d], next_id := Suc (next_id st)\<rparr>)
                         \<and> timestamp d = utcnow env)
             else fromisoformat lib (replace_all ''Z'' ''+00:00'' s) = None
                \<longrightarrow> github_webhook lib env request st = (Unhandled ValueError, st)
                  \<and> status_code (fst (github_webhook lib env request st)) = 500"
    by (intro opened_timestamp_string[where payload = payload and repo_full = repo_full
          and pr = pr and f = f]) simp_all
next
  assume "reaches_dispatch lib env request payload repo_full
        \<and> event_header_of request = ''pull_request''
        \<and> get_or payload ''action'' (JStr []) = JStr ''closed''
        \<and> get_or payload ''pull_request'' (JObj []) = pr
        \<and> eq_True (field_or_null pr ''merged'')
        \<and> at_path pr [''merged_by'', ''login''] = Some a
        \<and> at_path pr [''head'', ''ref''] = Some f
        \<and> at_path pr [''base'', ''ref''] = Some t
        \<and> field pr ''merged_at'' = Some (JStr s)"
  then show "if s = []
             then truthy a \<and> truthy t \<and> db_ok env
                \<longrightarrow> (\<exists>d. github_webhook lib env request st
                            = (Jsonify ''Recorded merge event'' 201,
                               st\<lparr>docs := docs st @ [d], next_id := Suc (next_id st)\<rparr>)
                         \<and> timestamp d = utcnow env)
             else fromisoformat lib (replace_all ''Z'' ''+00:00'' s) = None
                \<longrightarrow> github_webhook lib env request st = (Unhandled ValueError, st)
                  \<and> status_code (fst (github_webhook lib env request st)) = 500"
    by (intro merged_timestamp_string[where payload = payload and repo_full = repo_full
          and pr = pr and f = f]) simp_all
next
  assume h: "(GITHUB_SECRET env = [] \<or> app_verify_github_signature lib env request = Inr ())
        \<and> get_json request = Some payload
        \<and> event_header_of request = ''push''
        \<and> at_path payload [''repository'', ''full_name''] = Some rn
        \<and> at_path payload [''pusher'', ''name''] = Some a
        \<and> at_path payload [''pusher'', ''email''] = Some pe
        \<and> field payload ''ref'' = Some (JStr r)
        \<and> field payload ''commits'' = Some (JArr (pre @ c # rest))
        \<and> commit_docs lib pre = Inr ds
        \<and> field c ''id'' = Some i \<and> field c ''message'' = Some m
        \<and> field c ''timestamp'' = Some (JStr s)
        \<and> fromisoformat lib (replace_all ''Z'' ''+00:00'' s) = None"
  then have e: "handle_github_webhook lib env request st' = (Unhandled ValueError, st')"
    by (intro app_malformed_commit_time[where payload = payload and rn = rn and pn = a
          and pe = pe and r = r and pre = pre and c = c and rest = rest and ds = ds
          and i = i and m = m and s = s])
       simp_all
  then show "handle_github_webhook lib env request st' = (Unhandled ValueError, st')" .
  from e show "status_code (fst (handle_github_webhook lib env request st')) = 500"
    by simp
qed

theorem malformed_timestamp_is_unhandled_witness:
  "github_webhook sample_lib open_env (webhook_request ''push'' bad_time_push) empty_store
     = (Unhandled ValueError, empty_store)
   \<and> handle_github_webhook sample_lib open_env (webhook_request ''push'' bad_time_push)
        empty_store
     = (Unhandled ValueError, empty_store)
   \<and> github_webhook sample_lib open_env (bad_time_request ''opened'') empty_store
     = (Unhandled ValueError, empty_store)
   \<and> github_webhook sample_lib open_env (bad_time_request ''closed'') empty_store
     = (Unhandled ValueError, empty_store)
   \<and> fst (github_webhook sample_lib open_env (webhook_request ''push'' empty_time_push)
            empty_store)
     = Jsonify ''Recorded push event'' 201
   \<and> map timestamp (docs (snd (github_webhook sample_lib open_env
                                  (webhook_request ''push'' empty_time_push) empty_store)))
     = [1749000000]
   \<and> parse_timestamp sample_lib (JStr ''2025-06-03T14:30:00Z'') = Inr 1748961000"
  using malformed_timestamp_is_unhandled[where lib = sample_lib and env = open_env
      and request = "webhook_request ''push'' bad_time_push" and payload = bad_time_push
      and repo_full = "JStr ''o/r''" and z = "''2025-06-03T14:30:00''"
      and a = "JStr ''alice''" and r = "''refs/heads/main''" and s = "''yesterday''"
      and st = empty_store and st' = empty_store
      and pr = bad_time_pr and f = "JStr ''feature''" and t = "JStr ''main''"
      and rn = "JStr ''o/r''" and pe = "JStr ''a@example.org''" and pre = "[]"
      and c = "JObj [(''id'', JStr ''c0ffee''), (''message'', JStr ''fix''),
                          (''timestamp'', JStr ''yesterday''),
                          (''url'', JStr ''https://example.org/c0ffee''),
                          (''author'', JObj [(''name'', JStr ''alice''),
                                              (''email'', JStr ''a@example.org'')])]"
      and rest = "[]" and ds = "[]" and i = "JStr ''c0ffee''" and m = "JStr ''fix''"]
    malformed_timestamp_is_unhandled[where lib = sample_lib and env = open_env
      and request = "bad_time_request ''opened''"
      and payload = "JObj [(''action'', JStr ''opened''), (''pull_request'', bad_time_pr)]"
      and repo_full = "JStr ''unknown/unknown''" and z = "''2025-06-03T14:30:00''"
      and a = "JStr ''carol''" and r = "''refs/heads/main''" and s = "''yesterday''"
      and st = empty_store and st' = empty_store
      and pr = bad_time_pr and f = "JStr ''feature''" and t = "JStr ''main''"
      and rn = "JStr ''o/r''" and pe = "JStr ''a@example.org''" and pre = "[]"
      and c = JNull and rest = "[]" and ds = "[]" and i = JNull and m = JNull]
    malformed_timestamp_is_unhandled[where lib = sample_lib and env = open_env
      and request = "bad_time_request ''closed''"
      and payload = "JObj [(''action'', JStr ''closed''), (''pull_request'', bad_time_pr)]"
      and repo_full = "JStr ''unknown/unknown''" and z = "''2025-06-03T14:30:00''"
      and a = "JStr ''bob''" and r = "''refs/heads/main''" and s = "''yesterday''"
      and st = empty_store and st' = empty_store
      and pr = bad_time_pr and f = "JStr ''feature''" and t = "JStr ''main''"
      and rn = "JStr ''o/r''" and pe = "JStr ''a@example.org''" and pre = "[]"
      and c = JNull and rest = "[]" and ds = "[]" and i = JNull and m = JNull]
    malformed_timestamp_is_unhandled[where lib = sample_lib and env = open_env
      and request = "webhook_request ''push'' empty_time_push" and payload = empty_time_push
      and repo_full = "JStr ''o/r''" and z = "''2025-06-03T14:30:00''"
      and a = "JStr ''alice''" and r = "''refs/heads/main''" and s = "[]"
      and st = empty_store and st' = empty_store
      and pr = bad_time_pr and f = "JStr ''feature''" and t = "JStr ''main''"
      and rn = "JStr ''o/r''" and pe = "JStr ''a@example.org''" and pre = "[]"
      and c = JNull and rest = "[]" and ds = "[]" and i = JNull and m = JNull]
  by (simp add: run_defs app_defs sample_defs reaches_dispatch_def get_or_def
      field_or_null_def)

end
